theory Spec2Isabelle
  imports Complex_Main
begin

section \<open>Python values and exceptions\<close>

text \<open>
  The exceptions that the modelled code of \<^verbatim>\<open>holoviews/plotting/element.py\<close> can raise.
  A computation that may raise returns \<open>error + 'a\<close>, with \<open>Inl\<close> for the exception.
\<close>

datatype error = KeyError | ValueError | IndexError | TypeError | ZeroDivisionError
  | AttributeError

text \<open>Sequencing of computations that may raise: the first exception ends the run.\<close>

definition bind_err :: "error + 'a \<Rightarrow> ('a \<Rightarrow> error + 'b) \<Rightarrow> error + 'b" where
  "bind_err m f = (case m of Inl e \<Rightarrow> Inl e | Inr x \<Rightarrow> f x)"

text \<open>
  The values a frame key is made of: dimension values, or a tuple of them. A key handed to
  \<^verbatim>\<open>_get_frame\<close> is either a tuple or a single value.
\<close>

datatype pyval = IntV int | FloatV real | StrV string | NoneV | TupleV "pyval list"

text \<open>
  The subscript \<^verbatim>\<open>xs[i]\<close> of a Python list: positions \<open>0\<close> to \<open>len - 1\<close> from the front,
  \<open>-1\<close> down to \<open>-len\<close> from the back, an IndexError for every other integer.
\<close>

definition py_index :: "'a list \<Rightarrow> int \<Rightarrow> error + 'a" where
  "py_index xs i =
     (if 0 \<le> i \<and> i < int (length xs) then Inr (xs ! nat i)
      else if i < 0 \<and> - int (length xs) \<le> i then Inr (xs ! nat (int (length xs) + i))
      else Inl IndexError)"

text \<open>Python \<^verbatim>\<open>xs.index(x)\<close>: the first position of \<open>x\<close>, ValueError when absent.\<close>

fun list_index :: "'a list \<Rightarrow> 'a \<Rightarrow> error + nat" where
  "list_index [] x = Inl ValueError"
| "list_index (y # ys) x =
     (if y = x then Inr 0
      else (case list_index ys x of Inl e \<Rightarrow> Inl e | Inr i \<Rightarrow> Inr (Suc i)))"

text \<open>Python \<^verbatim>\<open>dict(pairs)\<close>: a later pair overwrites an earlier one with the same key.\<close>

definition dict_of :: "('k \<times> 'v) list \<Rightarrow> ('k \<rightharpoonup> 'v)" where
  "dict_of kvs = fold (\<lambda>(k, v) m. m(k \<mapsto> v)) kvs Map.empty"

section \<open>The data model the plots read\<close>

text \<open>
  An extents or range component: \<^verbatim>\<open>None\<close>, the object \<^verbatim>\<open>np.NaN\<close> itself (\<open>NaN\<close>), any
  other float that is a NaN (\<open>OtherNaN\<close>), an infinity or a finite number. The two kinds of
  NaN are kept apart because the source looks for \<^verbatim>\<open>np.NaN\<close> with \<^verbatim>\<open>in\<close>, which finds that
  object by identity and no other NaN. \<open>isfinite\<close> is \<^verbatim>\<open>np.isfinite\<close> on the numeric ones.
\<close>

datatype ext = ENone | NaN | OtherNaN | PosInf | NegInf | Num real

text \<open>Python's \<^verbatim>\<open>l == r\<close> on such values: a NaN is equal to nothing, not even to itself.\<close>

definition ext_eq :: "ext \<Rightarrow> ext \<Rightarrow> bool" where
  "ext_eq l r = (l = r \<and> l \<noteq> NaN \<and> l \<noteq> OtherNaN)"

fun isfinite :: "ext \<Rightarrow> bool" where
  "isfinite (Num x) = True"
| "isfinite _ = False"

text \<open>A dimension of an element: its name, its printed form and its tick formatters.\<close>

record dimension =
  name :: string
  dim_str :: string
  formatter :: "nat option"
  type_formatter :: "nat option"

text \<open>
  A frame (an element or overlay of the data model), with what the plotting code reads of
  it: the name of its type, group and label, its dimensions (\<^verbatim>\<open>view.dimensions()\<close>), the
  number of its key dimensions, \<^verbatim>\<open>view.range(i)\<close>, \<^verbatim>\<open>view.extents\<close>, whether it is a
  \<^verbatim>\<open>CompositeOverlay\<close> or an \<^verbatim>\<open>Element3D\<close>, and whether its \<^verbatim>\<open>norm\<close> options ask for
  framewise normalisation.
\<close>

record frame =
  type_name :: string
  group :: string
  label :: string
  frame_dimensions :: "dimension list"
  ndims :: nat
  frame_range :: "nat \<Rightarrow> ext \<times> ext"
  extents :: "ext list"
  is_composite :: bool
  is_3d :: bool
  norm_framewise :: bool

text \<open>
  A \<^verbatim>\<open>HoloMap\<close>: the names of its key dimensions, the name of the type of its items, the
  extents its traversal collects, and its items in order.
\<close>

record holomap =
  key_dimensions :: "string list"
  map_type :: string
  traverse_extents :: "ext list list"
  data :: "(pyval \<times> frame) list"

text \<open>What \<^verbatim>\<open>HoloMap.select\<close> returns: a \<^verbatim>\<open>HoloMap\<close>, or anything else (a frame or None).\<close>

datatype selection = SelMap holomap | SelOther "frame option"

text \<open>
  Modelled from the spec: the property \<^verbatim>\<open>HoloMap.last\<close> is not in the source file; the
  spec's data model says the last entry of the sequence is the current one. An empty
  sequence has none.
\<close>

definition last_frame :: "holomap \<Rightarrow> frame option" where
  "last_frame m = (if data m = [] then None else Some (snd (last (data m))))"

definition map_values :: "holomap \<Rightarrow> frame list" where
  "map_values m = map snd (data m)"

section \<open>The state of a plot and of its axis\<close>

type_synonym kwargs = "(string \<times> pyval) list"

text \<open>The value of the \<^verbatim>\<open>aspect\<close> parameter: None, a string or a number.\<close>

datatype aspect = AspectNone | AspectStr string | AspectNum real

text \<open>
  A tick locator of the backend: one supplied by the user (a \<^verbatim>\<open>ticker.Locator\<close> object),
  \<^verbatim>\<open>LogLocator(numticks, subs)\<close> or \<^verbatim>\<open>MaxNLocator(n)\<close>.
\<close>

datatype locator = Ticker nat | LogLocator int "int list" | MaxNLocator int

text \<open>
  A legend handle is a backend object, compared by identity (its number). Python's truth
  test on it is false for an empty container.
\<close>

datatype handle = Artist nat | EmptyContainer nat

fun handle_truthy :: "handle \<Rightarrow> bool" where
  "handle_truthy (Artist n) = True"
| "handle_truthy (EmptyContainer n) = False"

text \<open>The legend of an axis, as \<^verbatim>\<open>axis.legend(...)\<close> and the setters on it leave it.\<close>

record legend =
  legend_visible :: bool
  legend_handles :: "handle list"
  legend_labels :: "string list"
  legend_title :: string
  legend_kwargs :: kwargs
  frame_facecolor :: string
  frame_edgecolor :: string
  frame_linewidth :: string

text \<open>
  One direction of a backend axis (\<^verbatim>\<open>axis.xaxis\<close>, \<^verbatim>\<open>axis.yaxis\<close>, \<^verbatim>\<open>axis.zaxis\<close>) with the
  state the \<^verbatim>\<open>set_x...\<close> methods of the axis keep for that direction.
\<close>

record axis_dir =
  axis_label :: "(string \<times> kwargs) option"
  label_position :: string
  ticks_position :: string
  visible :: bool
  grid :: bool
  lim :: "(ext \<times> ext) option"
  scale :: string
  inverted :: bool
  major_formatter :: "nat option"
  major_locator :: "locator option"
  ticks :: "real list option"
  ticklabels :: "string list option"
  tick_rotation :: int

text \<open>The backend axis a plot draws on.\<close>

record axis =
  x_dir :: axis_dir
  y_dir :: axis_dir
  z_dir :: axis_dir
  axis_bgcolor :: "string option"
  axis_title :: "(string \<times> kwargs) option"
  axis_legend :: "legend option"
  auto_handles :: "handle list"
  auto_labels :: "string list"
  axis_aspect :: aspect
  spine_top :: bool
  spine_bottom :: bool
  spine_left :: bool
  spine_right :: bool
  tick_params :: "kwargs option"

text \<open>
  An \<^verbatim>\<open>ElementPlot\<close>: its parameters, the attributes set by \<^verbatim>\<open>__init__\<close>, the maps of its
  subplots, the handles it owns and the warnings it has issued.
\<close>

record plot =
  dimensions :: "string list option"
  plot_map :: holomap
  uniform :: bool
  overlaid :: nat
  zorder :: int
  projection :: "string option"
  apply_ranges :: bool
  apply_extents :: bool
  apply_ticks :: bool
  aspect :: aspect
  bgcolor :: "string option"
  hidden_labels :: "string list"
  invert_xaxis :: bool
  invert_yaxis :: bool
  logx :: bool
  logy :: bool
  logz :: bool
  show_legend :: bool
  show_grid :: bool
  show_title :: bool
  show_frame :: bool
  xaxis :: "string option"
  yaxis :: "string option"
  zaxis :: bool
  xticks :: int
  yticks :: int
  zticks :: int
  xticker :: "nat option"
  yticker :: "nat option"
  zticker :: "nat option"
  xrotation :: int
  yrotation :: int
  zrotation :: int
  title_format :: string
  layout_dimensions :: "(string \<times> pyval) list option"
  subplots :: "holomap list"
  handles_axis :: axis
  handles_title :: "(string \<times> kwargs) option"
  warnings :: "string list"

text \<open>
  What the source file calls and does not define: \<^verbatim>\<open>HoloMap.select\<close>, \<^verbatim>\<open>util.max_extents\<close>,
  the methods \<^verbatim>\<open>_frame_title\<close>, \<^verbatim>\<open>_fontsize\<close>, \<^verbatim>\<open>_subplot_label\<close> and \<^verbatim>\<open>_finalize_axis\<close>
  of the base class \<^verbatim>\<open>Plot\<close>, and \<^verbatim>\<open>get_data_ratio\<close> of the backend axis. They are
  parameters of the model. So is \<open>format_field\<close>: what \<^verbatim>\<open>str.format\<close> makes, from the keyword
  arguments, of a replacement field that is more than a name (an attribute, an index, a
  conversion or a format specification).
\<close>

record 'r base =
  select :: "holomap \<Rightarrow> (string \<rightharpoonup> pyval) \<Rightarrow> error + selection"
  max_extents :: "ext list list \<Rightarrow> bool \<Rightarrow> ext list"
  frame_title :: "plot \<Rightarrow> pyval \<Rightarrow> nat \<Rightarrow> string option"
  fontsize :: "plot \<Rightarrow> string \<Rightarrow> kwargs"
  tick_fontsize :: "plot \<Rightarrow> kwargs"
  subplot_label :: "plot \<Rightarrow> axis \<Rightarrow> axis"
  get_data_ratio :: "axis \<Rightarrow> real"
  plot_finalize_axis :: "plot \<Rightarrow> pyval \<Rightarrow> plot \<times> 'r"
  format_field :: "(string \<rightharpoonup> string) \<Rightarrow> string \<Rightarrow> error + string"

section \<open>Frame selection: \<^verbatim>\<open>ElementPlot._get_frame\<close>\<close>

text \<open>\<^verbatim>\<open>if not isinstance(key, tuple): key = (key,)\<close>\<close>

definition normalize_key :: "pyval \<Rightarrow> pyval list" where
  "normalize_key key = (case key of TupleV vs \<Rightarrow> vs | _ \<Rightarrow> [key])"

text \<open>
  The dictionary comprehension \<^verbatim>\<open>{d: key[dimensions.index(d)] for d in key_dimensions}\<close>:
  the names are visited in order and the first failing one raises.
\<close>

fun select_by_position ::
  "string list \<Rightarrow> pyval list \<Rightarrow> string list \<Rightarrow> (string \<rightharpoonup> pyval) \<Rightarrow> error + (string \<rightharpoonup> pyval)" where
  "select_by_position dims key [] acc = Inr acc"
| "select_by_position dims key (d # ds) acc =
     (case list_index dims d of
        Inl e \<Rightarrow> Inl e
      | Inr i \<Rightarrow>
          (case py_index key (int i) of
             Inl e \<Rightarrow> Inl e
           | Inr v \<Rightarrow> select_by_position dims key ds (acc(d \<mapsto> v))))"

text \<open>
  What \<^verbatim>\<open>zip(names, key)\<close> iterates over: the elements of a tuple, the characters of a
  string; any other key is not iterable.
\<close>

definition iterate :: "pyval \<Rightarrow> error + pyval list" where
  "iterate key =
     (case key of
        TupleV vs \<Rightarrow> Inr vs
      | StrV s \<Rightarrow> Inr (map (\<lambda>c. StrV [c]) s)
      | _ \<Rightarrow> Inl TypeError)"

text \<open>
  The part of \<^verbatim>\<open>_get_frame\<close> before the \<^verbatim>\<open>try\<close>: it either returns a frame directly (the
  non-uniform mode with an integer key) or builds the keyword arguments of \<^verbatim>\<open>select\<close>.
\<close>

datatype lookup = Direct frame | Select "string \<rightharpoonup> pyval"

definition frame_lookup :: "plot \<Rightarrow> pyval \<Rightarrow> error + lookup" where
  "frame_lookup p key =
     (if uniform p then
        (let key' = normalize_key key;
             kdims = key_dimensions (plot_map p);
             dims = (case dimensions p of None \<Rightarrow> kdims | Some ds \<Rightarrow> ds)
         in if kdims = [''Frame''] \<and> kdims \<noteq> dims
            then Inr (Select [''Frame'' \<mapsto> IntV 0])
            else map_sum id Select (select_by_position dims key' kdims Map.empty))
      else
        (case key of
           IntV k \<Rightarrow>
             map_sum id Direct
               (py_index (map_values (plot_map p))
                  (min k (int (length (data (plot_map p))) - 1)))
         | _ \<Rightarrow>
             map_sum id (\<lambda>vs. Select (dict_of (zip (key_dimensions (plot_map p)) vs)))
               (iterate key)))"

text \<open>
  \<^verbatim>\<open>_get_frame\<close>: only a KeyError of \<^verbatim>\<open>select\<close> is caught; a selection that is a
  \<^verbatim>\<open>HoloMap\<close> gives its last item.
\<close>

definition get_frame :: "'r base \<Rightarrow> plot \<Rightarrow> pyval \<Rightarrow> error + frame option" where
  "get_frame b p key =
     (case frame_lookup p key of
        Inl e \<Rightarrow> Inl e
      | Inr (Direct f) \<Rightarrow> Inr (Some f)
      | Inr (Select sel) \<Rightarrow>
          (case select b (plot_map p) sel of
             Inl e \<Rightarrow> (if e = KeyError then Inr None else Inl e)
           | Inr (SelMap m) \<Rightarrow> Inr (last_frame m)
           | Inr (SelOther r) \<Rightarrow> Inr r))"

text \<open>Python's truth test on an optional string: None and the empty string are false.\<close>

definition str_truthy :: "string option \<Rightarrow> bool" where
  "str_truthy s = (case s of None \<Rightarrow> False | Some t \<Rightarrow> t \<noteq> [])"

section \<open>Extents: \<^verbatim>\<open>ElementPlot.get_extents\<close>\<close>

type_synonym ranges = "(string \<times> (ext \<times> ext)) list option"

text \<open>\<^verbatim>\<open>if ranges:\<close> is false for None and for an empty dictionary.\<close>

definition ranges_truthy :: "ranges \<Rightarrow> bool" where
  "ranges_truthy r = (case r of None \<Rightarrow> False | Some kvs \<Rightarrow> kvs \<noteq> [])"

text \<open>\<^verbatim>\<open>num = 6 if self.projection == '3d' else 4\<close>\<close>

definition num_extents :: "plot \<Rightarrow> nat" where
  "num_extents p = (if projection p = Some ''3d'' then 6 else 4)"

text \<open>\<^verbatim>\<open>ranges[dims[i].name]\<close>\<close>

definition lookup_range :: "ranges \<Rightarrow> dimension list \<Rightarrow> nat \<Rightarrow> error + ext \<times> ext" where
  "lookup_range r dims i =
     bind_err (py_index dims (int i)) (\<lambda>d.
       case dict_of (case r of None \<Rightarrow> [] | Some kvs \<Rightarrow> kvs) (name d) of
         None \<Rightarrow> Inl KeyError
       | Some lohi \<Rightarrow> Inr lohi)"

text \<open>The first half of \<^verbatim>\<open>get_extents\<close>: the tuple \<^verbatim>\<open>range_extents\<close>.\<close>

definition range_extents :: "plot \<Rightarrow> frame \<Rightarrow> ranges \<Rightarrow> error + ext list" where
  "range_extents p view r =
     (if apply_ranges p then
        (if projection p = Some ''3d'' then
           bind_err
             (if ranges_truthy r then
                bind_err (lookup_range r (frame_dimensions view) 0) (\<lambda>x.
                bind_err (lookup_range r (frame_dimensions view) 1) (\<lambda>y.
                bind_err (lookup_range r (frame_dimensions view) 2) (\<lambda>z.
                  Inr (x, y, z))))
              else Inr (frame_range view 0, frame_range view 1, frame_range view 2))
             (\<lambda>(x, y, z). Inr [fst x, fst y, fst z, snd x, snd y, snd z])
         else
           bind_err
             (if ranges_truthy r then
                bind_err (lookup_range r (frame_dimensions view) 0) (\<lambda>x.
                bind_err (lookup_range r (frame_dimensions view) 1) (\<lambda>y.
                  Inr (x, y)))
              else Inr (frame_range view 0, frame_range view 1))
             (\<lambda>(x, y). Inr [fst x, fst y, snd x, snd y]))
      else Inr (replicate (num_extents p) NaN))"

text \<open>The second half: the extent overrides, the tuple \<^verbatim>\<open>extents\<close>.\<close>

definition extent_overrides :: "'r base \<Rightarrow> plot \<Rightarrow> frame \<Rightarrow> ext list" where
  "extent_overrides b p view =
     (if apply_extents p then
        (if norm_framewise view then extents view
         else max_extents b (traverse_extents (plot_map p)) (projection p = Some ''3d''))
      else replicate (num_extents p) NaN)"

text \<open>
  The returned tuple:
  \<^verbatim>\<open>tuple(l1 if l2 is None or not np.isfinite(l2) else l2 for l1, l2 in zip(...))\<close>.
  \<^verbatim>\<open>zip\<close> stops at the shorter of the two tuples.
\<close>

definition prefer_extent :: "ext \<times> ext \<Rightarrow> ext" where
  "prefer_extent ls = (case ls of (l1, l2) \<Rightarrow> if l2 = ENone \<or> \<not> isfinite l2 then l1 else l2)"

definition get_extents :: "'r base \<Rightarrow> plot \<Rightarrow> frame \<Rightarrow> ranges \<Rightarrow> error + ext list" where
  "get_extents b p view r =
     bind_err (range_extents p view r) (\<lambda>re.
       Inr (map prefer_extent (zip re (extent_overrides b p view))))"

section \<open>Titles: \<^verbatim>\<open>ElementPlot._format_title\<close>\<close>

text \<open>
  \<^verbatim>\<open>str.isspace\<close> on a unicode string whose code points are below 256: true when the string
  is not empty and every character is white space.
\<close>

definition is_space_char :: "char \<Rightarrow> bool" where
  "is_space_char c =
     (c \<in> set [CHR 0x09, CHR 0x0A, CHR 0x0B, CHR 0x0C, CHR 0x0D, CHR 0x1C, CHR 0x1D,
                CHR 0x1E, CHR 0x1F, CHR 0x20, CHR 0x85, CHR 0xA0])"

definition isspace :: "string \<Rightarrow> bool" where
  "isspace s = (s \<noteq> [] \<and> list_all is_space_char s)"

text \<open>
  \<^verbatim>\<open>str.format\<close> as the interpreter of the source's time (Python 2.7) reads a template:
  \<^verbatim>\<open>{{\<close> and \<^verbatim>\<open>}}\<close> are literal braces, a lone \<^verbatim>\<open>}\<close> or a \<^verbatim>\<open>{\<close> at the end is a
  ValueError, and a replacement field runs from a \<^verbatim>\<open>{\<close> to the \<^verbatim>\<open>}\<close> that matches it,
  counting braces; without that brace the template is a ValueError. The second argument is
  None in literal text, and inside a field the text of the field read so far (reversed)
  with the number of open braces. The first argument formats a field from its text.
\<close>

fun format_str ::
  "(string \<Rightarrow> error + string) \<Rightarrow> (string \<times> nat) option \<Rightarrow> string \<Rightarrow> error + string" where
  "format_str fld None [] = Inr []"
| "format_str fld (Some st) [] = Inl ValueError"
| "format_str fld None (c # cs) =
     (if c = CHR ''{'' then
        (case cs of
           [] \<Rightarrow> Inl ValueError
         | c' # rest \<Rightarrow>
             if c' = CHR ''{''
             then bind_err (format_str fld None rest) (\<lambda>r. Inr (CHR ''{'' # r))
             else format_str fld (Some ([], 1)) cs)
      else if c = CHR ''}'' then
        (case cs of
           [] \<Rightarrow> Inl ValueError
         | c' # rest \<Rightarrow>
             if c' = CHR ''}''
             then bind_err (format_str fld None rest) (\<lambda>r. Inr (CHR ''}'' # r))
             else Inl ValueError)
      else bind_err (format_str fld None cs) (\<lambda>r. Inr (c # r)))"
| "format_str fld (Some (acc, depth)) (c # cs) =
     (if c = CHR ''}'' then
        (if depth \<le> 1 then
           bind_err (fld (rev acc)) (\<lambda>v.
           bind_err (format_str fld None cs) (\<lambda>r. Inr (v @ r)))
         else format_str fld (Some (c # acc, depth - 1)) cs)
      else if c = CHR ''{'' then format_str fld (Some (c # acc, depth + 1)) cs
      else format_str fld (Some (c # acc, depth)) cs)"

text \<open>
  The keyword arguments of \<^verbatim>\<open>title_format.format(label=..., group=..., type=...)\<close>; all
  three are strings.
\<close>

definition title_kwargs :: "string \<Rightarrow> string \<Rightarrow> string \<Rightarrow> (string \<rightharpoonup> string)" where
  "title_kwargs lbl grp tn = [''label'' \<mapsto> lbl, ''group'' \<mapsto> grp, ''type'' \<mapsto> tn]"

definition is_digit :: "char \<Rightarrow> bool" where
  "is_digit c = (c \<in> set ''0123456789'')"

text \<open>
  One replacement field, called without positional arguments. A field whose text has none
  of the characters \<^verbatim>\<open>. [ : !\<close> is a plain argument name: an empty name or a number asks
  for a positional argument and is an IndexError, a name that is not a keyword is a
  KeyError, and a keyword gives its string as it is. Any other field (an attribute, an
  index, a conversion or a format specification) is formatted by the interpreter, here by
  \<open>format_field\<close>.
\<close>

definition replacement_field :: "'r base \<Rightarrow> (string \<rightharpoonup> string) \<Rightarrow> string \<Rightarrow> error + string" where
  "replacement_field b kw f =
     (if list_ex (\<lambda>c. c \<in> set ''.[:!'') f then format_field b kw f
      else if list_all is_digit f then Inl IndexError
      else (case kw f of None \<Rightarrow> Inl KeyError | Some v \<Rightarrow> Inr v))"

definition layout_truthy :: "plot \<Rightarrow> bool" where
  "layout_truthy p = (case layout_dimensions p of None \<Rightarrow> False | Some kvs \<Rightarrow> kvs \<noteq> [])"

text \<open>
  \<^verbatim>\<open>_format_title\<close>. First the part of the title that comes from the template: the group
  is left out when it is the name of the type, and a plot with layout dimensions has no
  such part. \<^verbatim>\<open>util.safe_unicode\<close> leaves a string as it is. Then the suffix,
  \<^verbatim>\<open>self._frame_title(key, 2)\<close>, and the choice between the two.
\<close>

definition template_title :: "'r base \<Rightarrow> plot \<Rightarrow> frame \<Rightarrow> error + string" where
  "template_title b p frame =
     (let tn = type_name frame;
          grp = (if group frame \<noteq> tn then group frame else []);
          lbl = label frame
      in if layout_truthy p then Inr []
         else format_str (replacement_field b (title_kwargs lbl grp tn)) None (title_format p))"

definition format_title :: "'r base \<Rightarrow> plot \<Rightarrow> pyval \<Rightarrow> error + string option" where
  "format_title b p key =
     bind_err (get_frame b p key) (\<lambda>fr.
       case fr of
         None \<Rightarrow> Inr None
       | Some frame \<Rightarrow>
           bind_err (template_title b p frame) (\<lambda>title.
             let dim_title = frame_title b p key 2
             in if title = [] \<or> isspace title then Inr dim_title
                else
                  (case dim_title of
                     None \<Rightarrow> Inr (Some title)
                   | Some dt \<Rightarrow>
                       if dt = [] \<or> isspace dt then Inr (Some title)
                       else Inr (Some (title @ [CHR 0x0A] @ dt)))))"

section \<open>Axis decoration\<close>

text \<open>
  \<^verbatim>\<open>_axis_labels\<close>: a label that was not passed in is the printed form of the frame's
  first, second or third dimension; a composite frame skips its own key dimensions.
\<close>

definition axis_labels ::
  "plot \<Rightarrow> frame \<Rightarrow> string option \<Rightarrow> string option \<Rightarrow> string option
     \<Rightarrow> string option \<times> string option \<times> string option" where
  "axis_labels p view xlabel ylabel zlabel =
     (let dims = (if is_composite view then drop (ndims view) (frame_dimensions view)
                  else frame_dimensions view);
          xlabel' = (if dims \<noteq> [] \<and> xlabel = None then Some (dim_str (dims ! 0)) else xlabel);
          ylabel' = (if 2 \<le> length dims \<and> ylabel = None then Some (dim_str (dims ! 1))
                     else ylabel);
          zlabel' = (if projection p = Some ''3d'' \<and> 3 \<le> length dims \<and> zlabel = None
                     then Some (dim_str (dims ! 2)) else zlabel)
      in (xlabel', ylabel', zlabel'))"

text \<open>Python float division \<^verbatim>\<open>a / b\<close>, with numbers as reals.\<close>

definition py_div :: "real \<Rightarrow> real \<Rightarrow> error + real" where
  "py_div a b = (if b = 0 then Inl ZeroDivisionError else Inr (a / b))"

text \<open>\<^verbatim>\<open>_apply_aspect\<close>\<close>

definition apply_aspect :: "'r base \<Rightarrow> plot \<Rightarrow> axis \<Rightarrow> error + axis" where
  "apply_aspect b p axis =
     (if logx p \<or> logy p then Inr axis
      else if aspect p = AspectStr ''square'' then
        bind_err (py_div 1 (get_data_ratio b axis)) (\<lambda>v.
          Inr (axis\<lparr>axis_aspect := AspectNum v\<rparr>))
      else
        (case aspect p of
           AspectNone \<Rightarrow> Inr axis
         | AspectStr s \<Rightarrow> Inr (axis\<lparr>axis_aspect := AspectStr s\<rparr>)
         | AspectNum a \<Rightarrow>
             bind_err (py_div 1 (get_data_ratio b axis)) (\<lambda>sq.
             bind_err (py_div sq a) (\<lambda>v.
               Inr (axis\<lparr>axis_aspect := AspectNum v\<rparr>)))))"

text \<open>
  \<^verbatim>\<open>if not np.NaN in (l, r) and not l==r: axis.set_xlim((l, r))\<close>, for each direction. The
  membership test finds the object \<^verbatim>\<open>np.NaN\<close> only: another NaN is neither identical nor
  equal to it, and it is not equal to the other bound either, so the limits are set with
  it.
\<close>

definition set_lim :: "ext \<Rightarrow> ext \<Rightarrow> axis_dir \<Rightarrow> axis_dir" where
  "set_lim l r d =
     (if \<not> (l = NaN \<or> r = NaN) \<and> \<not> ext_eq l r then d\<lparr>lim := Some (l, r)\<rparr> else d)"

text \<open>
  \<^verbatim>\<open>_finalize_limits\<close>. Every value of type \<open>ext\<close> passes \<^verbatim>\<open>np.isreal\<close>, so the
  coordinates are the extents. Unpacking a tuple of the wrong length is a ValueError.
\<close>

definition finalize_limits :: "'r base \<Rightarrow> plot \<Rightarrow> axis \<Rightarrow> frame \<Rightarrow> ranges \<Rightarrow> error + axis" where
  "finalize_limits b p axis view rs =
     bind_err (get_extents b p view rs) (\<lambda>coords.
       if coords \<noteq> [] \<and> overlaid p = 0 then
         (if is_3d view \<or> projection p = Some ''3d'' then
            (case coords of
               [l, bt, zmin, r, t, zmax] \<Rightarrow>
                 Inr (axis\<lparr>z_dir := set_lim zmin zmax (z_dir axis),
                           x_dir := set_lim l r (x_dir axis),
                           y_dir := set_lim bt t (y_dir axis)\<rparr>)
             | _ \<Rightarrow> Inl ValueError)
          else
            (case coords of
               [l, bt, r, t] \<Rightarrow>
                 Inr (axis\<lparr>x_dir := set_lim l r (x_dir axis),
                           y_dir := set_lim bt t (y_dir axis)\<rparr>)
             | _ \<Rightarrow> Inl ValueError))
       else Inr axis)"

text \<open>
  The tick formatter of one direction, in \<^verbatim>\<open>_finalize_axis\<close>: the dimension's own formatter,
  else the one registered for its type. \<^verbatim>\<open>view.get_dimension(i)\<close> is None when the frame has
  no such dimension, and reading an attribute of None is an AttributeError.
\<close>

definition set_formatter :: "frame \<Rightarrow> nat \<Rightarrow> axis_dir \<Rightarrow> error + axis_dir" where
  "set_formatter view i d =
     (if i < length (frame_dimensions view) then
        (let dim = frame_dimensions view ! i;
             fmt = (case formatter dim of Some f \<Rightarrow> Some f | None \<Rightarrow> type_formatter dim)
         in case fmt of
              None \<Rightarrow> Inr d
            | Some f \<Rightarrow> Inr (d\<lparr>major_formatter := Some f\<rparr>))
      else Inl AttributeError)"

text \<open>\<^verbatim>\<open>_finalize_axes\<close>\<close>

definition finalize_axes :: "plot \<Rightarrow> axis \<Rightarrow> axis" where
  "finalize_axes p axis =
     (let a1 = (if logx p then axis\<lparr>x_dir := (x_dir axis)\<lparr>scale := ''log''\<rparr>\<rparr>
                else if logy p then axis\<lparr>y_dir := (y_dir axis)\<lparr>scale := ''log''\<rparr>\<rparr>
                else axis);
          a2 = (if invert_xaxis p
                then a1\<lparr>x_dir := (x_dir a1)\<lparr>inverted := \<not> inverted (x_dir a1)\<rparr>\<rparr> else a1);
          a3 = (if invert_yaxis p
                then a2\<lparr>y_dir := (y_dir a2)\<lparr>inverted := \<not> inverted (y_dir a2)\<rparr>\<rparr> else a2)
      in a3)"

text \<open>\<^verbatim>\<open>axis.spines[pos].set_visible(v)\<close>\<close>

definition set_spine :: "string \<Rightarrow> bool \<Rightarrow> axis \<Rightarrow> axis" where
  "set_spine pos v axis =
     (if pos = ''top'' then axis\<lparr>spine_top := v\<rparr>
      else if pos = ''bottom'' then axis\<lparr>spine_bottom := v\<rparr>
      else if pos = ''left'' then axis\<lparr>spine_left := v\<rparr>
      else if pos = ''right'' then axis\<lparr>spine_right := v\<rparr>
      else axis)"

text \<open>
  \<^verbatim>\<open>_finalize_ticks\<close>, first part: where the x and y axes are shown, and the spines that
  a hidden axis disables (not for a 3d projection).
\<close>

definition axis_positions :: "plot \<Rightarrow> axis \<Rightarrow> axis" where
  "axis_positions p axis =
     (if projection p \<noteq> Some ''3d'' then
        (let a1 = (case xaxis p of
                     Some v \<Rightarrow>
                       if v = ''top''
                       then axis\<lparr>x_dir := (x_dir axis)\<lparr>ticks_position := ''top'',
                                                        label_position := ''top''\<rparr>\<rparr>
                       else if v = ''bottom''
                       then axis\<lparr>x_dir := (x_dir axis)\<lparr>ticks_position := ''bottom''\<rparr>\<rparr>
                       else axis
                   | None \<Rightarrow> axis\<lparr>x_dir := (x_dir axis)\<lparr>visible := False\<rparr>\<rparr>);
             a2 = (case yaxis p of
                     Some v \<Rightarrow>
                       if v = ''left''
                       then a1\<lparr>y_dir := (y_dir a1)\<lparr>ticks_position := ''left''\<rparr>\<rparr>
                       else if v = ''right''
                       then a1\<lparr>y_dir := (y_dir a1)\<lparr>ticks_position := ''right'',
                                                    label_position := ''right''\<rparr>\<rparr>
                       else a1
                   | None \<Rightarrow> a1\<lparr>y_dir := (y_dir a1)\<lparr>visible := False\<rparr>\<rparr>);
             disabled_spines =
               (if xaxis p = None then [''top'', ''bottom''] else [])
               @ (if yaxis p = None then [''left'', ''right''] else [])
         in fold (\<lambda>pos a. set_spine pos False a) disabled_spines a2)
      else axis)"

text \<open>Second part: without a frame, the two spines away from the axes are hidden.\<close>

definition frame_spines :: "plot \<Rightarrow> axis \<Rightarrow> axis" where
  "frame_spines p axis =
     (if overlaid p = 0 \<and> \<not> show_frame p \<and> projection p \<noteq> Some ''polar'' then
        set_spine (if xaxis p = Some ''top'' then ''bottom'' else ''top'') False
          (set_spine (if yaxis p = Some ''left'' then ''right'' else ''left'') False axis)
      else axis)"

type_synonym tickspec = "(real list \<times> string list) option"

text \<open>
  Third part, for x and for y: a locator of the user, else the tick positions and labels
  passed in, else a log locator, else at most \<open>n\<close> ticks when \<open>n\<close> is not zero.
\<close>

definition set_ticks :: "nat option \<Rightarrow> tickspec \<Rightarrow> bool \<Rightarrow> int \<Rightarrow> axis_dir \<Rightarrow> axis_dir" where
  "set_ticks tkr tks lg n d =
     (case tkr of
        Some t \<Rightarrow> d\<lparr>major_locator := Some (Ticker t)\<rparr>
      | None \<Rightarrow>
          (case tks of
             Some (pos, labels) \<Rightarrow> d\<lparr>ticks := Some pos, ticklabels := Some labels\<rparr>
           | None \<Rightarrow>
               if lg then d\<lparr>major_locator := Some (LogLocator n [1, 2, 3, 4, 5, 6, 7, 8, 9])\<rparr>
               else if n \<noteq> 0 then d\<lparr>major_locator := Some (MaxNLocator n)\<rparr>
               else d))"

text \<open>For z, only in a 3d projection, and the last case does not test \<open>n\<close>.\<close>

definition set_zticks :: "nat option \<Rightarrow> tickspec \<Rightarrow> bool \<Rightarrow> int \<Rightarrow> axis_dir \<Rightarrow> axis_dir" where
  "set_zticks tkr tks lg n d =
     (case tkr of
        Some t \<Rightarrow> d\<lparr>major_locator := Some (Ticker t)\<rparr>
      | None \<Rightarrow>
          (case tks of
             Some (pos, labels) \<Rightarrow> d\<lparr>ticks := Some pos, ticklabels := Some labels\<rparr>
           | None \<Rightarrow>
               if lg then d\<lparr>major_locator := Some (LogLocator n [1, 2, 3, 4, 5, 6, 7, 8, 9])\<rparr>
               else d\<lparr>major_locator := Some (MaxNLocator n)\<rparr>))"

text \<open>Last part: a direction named in \<^verbatim>\<open>hidden_labels\<close> loses tick labels, ticks and label.\<close>

definition hide_labels :: "axis_dir \<Rightarrow> axis_dir" where
  "hide_labels d = d\<lparr>ticklabels := Some [], ticks_position := ''none'', axis_label := Some ([], [])\<rparr>"

text \<open>\<^verbatim>\<open>_finalize_ticks\<close>. Only the x and z tick labels are rotated, as in the source.\<close>

definition finalize_ticks ::
  "'r base \<Rightarrow> plot \<Rightarrow> axis \<Rightarrow> tickspec \<Rightarrow> tickspec \<Rightarrow> tickspec \<Rightarrow> axis" where
  "finalize_ticks b p axis xtks ytks ztks =
     (let a1 = axis_positions p axis;
          a2 = frame_spines p a1;
          a3 = a2\<lparr>x_dir := (set_ticks (xticker p) xtks (logx p) (xticks p) (x_dir a2))
                              \<lparr>tick_rotation := xrotation p\<rparr>\<rparr>;
          a4 = a3\<lparr>y_dir := set_ticks (yticker p) ytks (logy p) (yticks p) (y_dir a3)\<rparr>;
          a5 = (if projection p = Some ''3d''
                then a4\<lparr>z_dir := (set_zticks (zticker p) ztks (logz p) (zticks p) (z_dir a4))
                                    \<lparr>tick_rotation := zrotation p\<rparr>\<rparr>
                else a4);
          a6 = (if ''x'' \<in> set (hidden_labels p) then a5\<lparr>x_dir := hide_labels (x_dir a5)\<rparr>
                else a5);
          a7 = (if ''y'' \<in> set (hidden_labels p) then a6\<lparr>y_dir := hide_labels (y_dir a6)\<rparr>
                else a6);
          a8 = (if ''z'' \<in> set (hidden_labels p) then a7\<lparr>z_dir := hide_labels (z_dir a7)\<rparr>
                else a7)
      in if tick_fontsize b p \<noteq> [] then a8\<lparr>tick_params := Some (tick_fontsize b p)\<rparr> else a8)"

section \<open>Axis finalization: \<^verbatim>\<open>ElementPlot._finalize_axis\<close>\<close>

text \<open>\<^verbatim>\<open>if label and self.xaxis: axis.set_xlabel(label, **self._fontsize(...))\<close>\<close>

definition set_label :: "string option \<Rightarrow> bool \<Rightarrow> kwargs \<Rightarrow> axis_dir \<Rightarrow> axis_dir" where
  "set_label lbl shown kw d =
     (case lbl of
        None \<Rightarrow> d
      | Some t \<Rightarrow> if t \<noteq> [] \<and> shown then d\<lparr>axis_label := Some (t, kw)\<rparr> else d)"

text \<open>\<^verbatim>\<open>_suppressed = [Table, ItemTable]\<close>\<close>

definition suppressed :: "string list" where
  "suppressed = [''Table'', ''ItemTable'']"

text \<open>
  The block of \<^verbatim>\<open>_finalize_axis\<close> that is guarded by
  \<^verbatim>\<open>if self.zorder == 0 and key is not None:\<close>. The title passed in is overwritten by
  \<^verbatim>\<open>_format_title(key)\<close> there.
\<close>

definition decorate ::
  "'r base \<Rightarrow> plot \<Rightarrow> pyval \<Rightarrow> frame option \<Rightarrow> ranges \<Rightarrow> tickspec \<Rightarrow> tickspec \<Rightarrow> tickspec
     \<Rightarrow> string option \<Rightarrow> string option \<Rightarrow> string option \<Rightarrow> error + plot" where
  "decorate b p key view rs xtks ytks ztks xlabel ylabel zlabel =
     bind_err (format_title b p key) (\<lambda>title.
     let axis = handles_axis p;
         suppress = list_ex (\<lambda>m. map_type m \<in> set suppressed) (plot_map p # subplots p)
     in bind_err
          (case view of
             None \<Rightarrow> Inr ((xlabel, ylabel, zlabel), axis)
           | Some v \<Rightarrow>
               if suppress then Inr ((xlabel, ylabel, zlabel), axis)
               else
                 bind_err (finalize_limits b p axis v rs) (\<lambda>a1.
                 bind_err (set_formatter v 0 (x_dir a1)) (\<lambda>xd.
                 bind_err (set_formatter v 1 (y_dir a1)) (\<lambda>yd.
                   Inr (axis_labels p v xlabel ylabel zlabel, a1\<lparr>x_dir := xd, y_dir := yd\<rparr>)))))
          (\<lambda>(labels, a2).
             case labels of (xlabel', ylabel', zlabel') \<Rightarrow>
             let a3 = (if zorder p = 0 \<and> subplots p = [] then
                         a2\<lparr>axis_legend :=
                               (case axis_legend a2 of
                                  None \<Rightarrow> None
                                | Some lg \<Rightarrow> Some (lg\<lparr>legend_visible := show_legend p\<rparr>)),
                             x_dir := (x_dir a2)\<lparr>grid := show_grid p\<rparr>,
                             y_dir := (y_dir a2)\<lparr>grid := show_grid p\<rparr>\<rparr>
                       else a2);
                 a4 = a3\<lparr>x_dir := set_label xlabel' (str_truthy (xaxis p))
                                      (fontsize b p ''xlabel'') (x_dir a3),
                         y_dir := set_label ylabel' (str_truthy (yaxis p))
                                      (fontsize b p ''ylabel'') (y_dir a3),
                         z_dir := set_label zlabel' (zaxis p)
                                      (fontsize b p ''ylabel'') (z_dir a3)\<rparr>
             in bind_err (apply_aspect b p a4) (\<lambda>a5.
                  let a6 = finalize_axes p (subplot_label b p a5);
                      a7 = (if apply_ticks p then finalize_ticks b p a6 xtks ytks ztks else a6)
                  in case title of
                       None \<Rightarrow> Inr (p\<lparr>handles_axis := a7\<rparr>)
                     | Some t \<Rightarrow>
                         if show_title p
                         then Inr (p\<lparr>handles_axis :=
                                        a7\<lparr>axis_title := Some (t, fontsize b p ''title'')\<rparr>,
                                      handles_title := Some (t, fontsize b p ''title'')\<rparr>)
                         else Inr (p\<lparr>handles_axis := a7\<rparr>))))"

text \<open>
  A finalize hook is a callable with a printed form; called with the plot and the frame it
  may change the plot, and it either returns or raises an exception (an instance of
  \<^verbatim>\<open>Exception\<close>, given by its message).
\<close>

type_synonym hook = "string \<times> (plot \<Rightarrow> frame option \<Rightarrow> plot \<times> string option)"

text \<open>\<^verbatim>\<open>self.warning("Plotting hook %r could not be applied:\n\n %s" % (hook, e))\<close>\<close>

definition hook_warning :: "string \<Rightarrow> string \<Rightarrow> string" where
  "hook_warning hook_repr e =
     ''Plotting hook '' @ hook_repr @ '' could not be applied:'' @ [CHR 0x0A, CHR 0x0A]
       @ '' '' @ e"

definition warning :: "string \<Rightarrow> plot \<Rightarrow> plot" where
  "warning msg p = p\<lparr>warnings := warnings p @ [msg]\<rparr>"

text \<open>
  One turn of the loop over \<^verbatim>\<open>self.finalize_hooks\<close>: the \<^verbatim>\<open>try\<close> statement. An exception
  of the hook is caught and reported by \<^verbatim>\<open>self.warning\<close>.
\<close>

definition try_hook :: "hook \<Rightarrow> frame option \<Rightarrow> plot \<Rightarrow> plot" where
  "try_hook h view p =
     (case snd h p view of
        (p', None) \<Rightarrow> p'
      | (p', Some e) \<Rightarrow> warning (hook_warning (fst h) e) p')"

text \<open>The loop \<^verbatim>\<open>for hook in self.finalize_hooks\<close>.\<close>

fun run_hooks :: "hook list \<Rightarrow> frame option \<Rightarrow> plot \<Rightarrow> plot" where
  "run_hooks [] view p = p"
| "run_hooks (h # hs) view p = run_hooks hs view (try_hook h view p)"

text \<open>\<^verbatim>\<open>if self.bgcolor: axis.set_axis_bgcolor(self.bgcolor)\<close>\<close>

definition set_bgcolor :: "plot \<Rightarrow> plot" where
  "set_bgcolor p =
     (if str_truthy (bgcolor p)
      then p\<lparr>handles_axis := (handles_axis p)\<lparr>axis_bgcolor := bgcolor p\<rparr>\<rparr>
      else p)"

text \<open>
  \<^verbatim>\<open>_finalize_axis\<close> up to the loop over the hooks: the frame that was selected and the plot
  as the decoration leaves it.
\<close>

definition before_hooks ::
  "'r base \<Rightarrow> plot \<Rightarrow> pyval \<Rightarrow> string option \<Rightarrow> ranges \<Rightarrow> tickspec \<Rightarrow> tickspec
     \<Rightarrow> tickspec \<Rightarrow> string option \<Rightarrow> string option \<Rightarrow> string option
     \<Rightarrow> error + frame option \<times> plot" where
  "before_hooks b p key title rs xtks ytks ztks xlabel ylabel zlabel =
     (let p0 = set_bgcolor p
      in bind_err (get_frame b p0 key) (\<lambda>view.
         bind_err
           (if zorder p0 = 0 \<and> key \<noteq> NoneV
            then decorate b p0 key view rs xtks ytks ztks xlabel ylabel zlabel
            else Inr p0)
           (\<lambda>p1. Inr (view, p1))))"

text \<open>
  \<^verbatim>\<open>_finalize_axis\<close>: the decoration, the hooks, and the method of the base class, whose
  result is returned.
\<close>

definition finalize_axis ::
  "'r base \<Rightarrow> hook list \<Rightarrow> plot \<Rightarrow> pyval \<Rightarrow> string option \<Rightarrow> ranges \<Rightarrow> tickspec \<Rightarrow> tickspec
     \<Rightarrow> tickspec \<Rightarrow> string option \<Rightarrow> string option \<Rightarrow> string option \<Rightarrow> error + plot \<times> 'r" where
  "finalize_axis b hooks p key title rs xtks ytks ztks xlabel ylabel zlabel =
     bind_err (before_hooks b p key title rs xtks ytks ztks xlabel ylabel zlabel)
       (\<lambda>(view, p1). Inr (plot_finalize_axis b (run_hooks hooks view p1) key))"

section \<open>Legends: \<^verbatim>\<open>OverlayPlot._adjust_legend\<close>\<close>

text \<open>
  A subplot of an overlay plot, with what \<^verbatim>\<open>_adjust_legend\<close> reads of it: whether it is
  an \<^verbatim>\<open>OverlayPlot\<close> itself, and its handles \<^verbatim>\<open>legend_data\<close> and \<^verbatim>\<open>legend_handle\<close> when it
  has them.
\<close>

record subplot =
  is_overlay_plot :: bool
  sp_legend_data :: "(handle \<times> string) list option"
  sp_legend_handle :: "handle option"

text \<open>A layer of the last overlay: Python's truth test on it, and its label.\<close>

record layer =
  layer_truthy :: bool
  layer_label :: string

text \<open>
  A key dimension of an \<^verbatim>\<open>NdOverlay\<close>: its name, its unit, and the printed form
  \<^verbatim>\<open>str(dim.pprint_value(k))\<close> of a value.
\<close>

record key_dimension =
  kd_name :: string
  kd_unit :: "string option"
  kd_pprint :: "pyval \<Rightarrow> string"

text \<open>The last overlay of the map, \<^verbatim>\<open>self.map.last\<close>.\<close>

record overlay =
  ov_key_dimensions :: "key_dimension list"
  ov_data :: "(pyval \<times> layer) list"

text \<open>An \<^verbatim>\<open>OverlayPlot\<close> is an \<^verbatim>\<open>ElementPlot\<close> with subplots by key and a legend.\<close>

record overlay_plot = plot +
  style_grouping :: int
  legend_position :: string
  map_is_ndoverlay :: bool
  map_last :: overlay
  overlay_subplots :: "(pyval \<times> subplot) list"
  handles_legend :: "legend option"
  handles_legend_data :: "(handle \<times> string) list option"

text \<open>The class attribute \<^verbatim>\<open>legend_specs\<close>, a dictionary by position name.\<close>

definition legend_specs :: "string \<Rightarrow> error + kwargs" where
  "legend_specs pos =
     (if pos = ''inner'' then Inr []
      else if pos = ''left'' then
        Inr [(''bbox_to_anchor'', TupleV [FloatV (- 15 / 100), IntV 1])]
      else if pos = ''right'' then
        Inr [(''bbox_to_anchor'', TupleV [FloatV (125 / 100), IntV 1])]
      else if pos = ''top'' then
        Inr [(''bbox_to_anchor'', TupleV [FloatV 0, FloatV (102 / 100), FloatV 1,
                                          FloatV (102 / 1000)]),
             (''ncol'', IntV 3), (''mode'', StrV ''expand''), (''borderaxespad'', FloatV 0)]
      else if pos = ''bottom'' then
        Inr [(''ncol'', IntV 3), (''mode'', StrV ''expand''),
             (''bbox_to_anchor'', TupleV [FloatV 0, FloatV (- 25 / 100), FloatV 1,
                                          FloatV (102 / 1000)]),
             (''borderaxespad'', FloatV (1 / 10))]
      else Inl KeyError)"

text \<open>\<^verbatim>\<open>sep.join(xs)\<close>\<close>

fun join :: "string \<Rightarrow> string list \<Rightarrow> string" where
  "join sep [] = []"
| "join sep [x] = x"
| "join sep (x # y # ys) = x @ sep @ join sep (y # ys)"

text \<open>
  The label of a key of an \<^verbatim>\<open>NdOverlay\<close>: the printed values, each followed by the unit of
  its dimension when it has one, joined by commas.
\<close>

definition key_label :: "key_dimension list \<Rightarrow> pyval \<Rightarrow> error + string" where
  "key_label dims key =
     bind_err (iterate key) (\<lambda>ks.
       Inr (join '','' (map (\<lambda>(d, k). if str_truthy (kd_unit d)
                                       then kd_pprint d k @ (case kd_unit d of Some u \<Rightarrow> u | None \<Rightarrow> [])
                                       else kd_pprint d k)
                          (zip dims ks))))"

text \<open>The loop over the keys of the last \<^verbatim>\<open>NdOverlay\<close>; \<^verbatim>\<open>self.subplots[key]\<close> may fail.\<close>

fun nd_legend_data ::
  "key_dimension list \<Rightarrow> (pyval \<times> subplot) list \<Rightarrow> pyval list \<Rightarrow> (handle \<times> string) list
     \<Rightarrow> error + (handle \<times> string) list" where
  "nd_legend_data dims sps [] acc = Inr acc"
| "nd_legend_data dims sps (key # ks) acc =
     (case dict_of sps key of
        None \<Rightarrow> Inl KeyError
      | Some sp \<Rightarrow>
          bind_err (key_label dims key) (\<lambda>lbl.
            case sp_legend_handle sp of
              None \<Rightarrow> nd_legend_data dims sps ks acc
            | Some h \<Rightarrow>
                if handle_truthy h then nd_legend_data dims sps ks (acc @ [(h, lbl)])
                else nd_legend_data dims sps ks acc))"

text \<open>The loop over the subplots of a plain overlay.\<close>

fun overlay_legend_data ::
  "(pyval \<times> layer) list \<Rightarrow> (pyval \<times> subplot) list \<Rightarrow> (handle \<times> string) list
     \<Rightarrow> (handle \<times> string) list" where
  "overlay_legend_data layers [] acc = acc"
| "overlay_legend_data layers ((key, sp) # sps) acc =
     (if is_overlay_plot sp then
        overlay_legend_data layers sps
          (acc @ (case sp_legend_data sp of None \<Rightarrow> [] | Some d \<Rightarrow> d))
      else
        (case (dict_of layers key, sp_legend_handle sp) of
           (Some l, Some h) \<Rightarrow>
             if layer_truthy l \<and> layer_label l \<noteq> [] \<and> handle_truthy h
             then overlay_legend_data layers sps (acc @ [(h, layer_label l)])
             else overlay_legend_data layers sps acc
         | _ \<Rightarrow> overlay_legend_data layers sps acc))"

text \<open>
  The loop that fills the ordered dictionary \<^verbatim>\<open>data\<close>:
  \<^verbatim>\<open>if handle and (handle not in data) and label: data[handle] = label\<close>.
\<close>

fun collect_legend :: "(handle \<times> string) list \<Rightarrow> (handle \<times> string) list \<Rightarrow> (handle \<times> string) list" where
  "collect_legend [] acc = acc"
| "collect_legend ((h, l) # hls) acc =
     (if handle_truthy h \<and> h \<notin> set (map fst acc) \<and> l \<noteq> []
      then collect_legend hls (acc @ [(h, l)])
      else collect_legend hls acc)"

text \<open>
  Lines 625 to 632: the handles and labels of the subplots come first, then those the
  backend found on the axis; the two lists are zipped.
\<close>

definition aggregate_legend ::
  "(handle \<times> string) list \<Rightarrow> handle list \<Rightarrow> string list \<Rightarrow> (handle \<times> string) list" where
  "aggregate_legend legend_data autohandles autolabels =
     (let all_handles = map fst legend_data @ autohandles;
          all_labels = map snd legend_data @ autolabels
      in collect_legend (zip all_handles all_labels) [])"

text \<open>\<^verbatim>\<open>_adjust_legend\<close>\<close>

definition adjust_legend :: "overlay_plot \<Rightarrow> error + overlay_plot" where
  "adjust_legend p =
     (let axis = handles_axis p
      in bind_err
           (if map_is_ndoverlay p then
              bind_err
                (nd_legend_data (ov_key_dimensions (map_last p)) (overlay_subplots p)
                   (map fst (ov_data (map_last p))) [])
                (\<lambda>ld. Inr (ld, join '', '' (map kd_name (ov_key_dimensions (map_last p)))))
            else Inr (overlay_legend_data (ov_data (map_last p)) (overlay_subplots p) [], []))
           (\<lambda>(legend_data, title).
              let data = aggregate_legend legend_data (auto_handles axis) (auto_labels axis)
              in if \<not> 1 < length data \<or> \<not> show_legend p then
                   Inr (p\<lparr>handles_axis :=
                             axis\<lparr>axis_legend :=
                                    (case axis_legend axis of
                                       None \<Rightarrow> None
                                     | Some lg \<Rightarrow> Some (lg\<lparr>legend_visible := False\<rparr>))\<rparr>,
                           handles_legend_data := Some data\<rparr>)
                 else
                   bind_err (legend_specs (legend_position p)) (\<lambda>leg_spec.
                     let leg = \<lparr>legend_visible = True,
                                legend_handles = map fst data,
                                legend_labels = map snd data,
                                legend_title = title,
                                legend_kwargs = (''scatterpoints'', IntV 1) # leg_spec,
                                frame_facecolor = ''1.0'',
                                frame_edgecolor = ''0.0'',
                                frame_linewidth = ''1.0''\<rparr>
                     in Inr (p\<lparr>handles_axis := axis\<lparr>axis_legend := Some leg\<rparr>,
                               handles_legend := Some leg,
                               handles_legend_data := Some data\<rparr>))))"

text \<open>
  A title template as the specification words it: literal text and the fields \<open>{label}\<close>,
  \<open>{group}\<close> and \<open>{type}\<close>, each replaced by the label of the frame, by its group (left
  out when it is the name of the type) and by the name of its type.
\<close>

datatype piece = Lit string | Field string

definition brace_free :: "string \<Rightarrow> bool" where
  "brace_free s = list_all (\<lambda>c. c \<noteq> CHR ''{'' \<and> c \<noteq> CHR ''}'') s"

fun piece_text :: "piece \<Rightarrow> string" where
  "piece_text (Lit s) = s"
| "piece_text (Field n) = CHR ''{'' # n @ ''}''"

fun piece_ok :: "piece \<Rightarrow> bool" where
  "piece_ok (Lit s) = brace_free s"
| "piece_ok (Field n) = (n = ''label'' \<or> n = ''group'' \<or> n = ''type'')"

definition template_text :: "piece list \<Rightarrow> string" where
  "template_text ps = concat (map piece_text ps)"

fun substitute :: "frame \<Rightarrow> piece \<Rightarrow> string" where
  "substitute frame (Lit s) = s"
| "substitute frame (Field n) =
     (if n = ''label'' then label frame
      else if n = ''group'' then (if group frame \<noteq> type_name frame then group frame else [])
      else type_name frame)"

text \<open>
  The aggregation as the specification words it: of the entries in order, the first one of
  each handle is kept.
\<close>

fun first_per_handle :: "(handle \<times> string) list \<Rightarrow> (handle \<times> string) list" where
  "first_per_handle [] = []"
| "first_per_handle ((h, l) # hls) =
     (h, l) # first_per_handle (filter (\<lambda>hl. fst hl \<noteq> h) hls)"

text \<open>An entry that the loop of the source can take: a true handle and a label that is not empty.\<close>

definition legend_entry_ok :: "handle \<times> string \<Rightarrow> bool" where
  "legend_entry_ok hl = (handle_truthy (fst hl) \<and> snd hl \<noteq> [])"

section \<open>Concrete plots for the examples\<close>

text \<open>A frame of type \<^verbatim>\<open>Curve\<close> with dimensions x and y, given its group and label.\<close>

definition plain_dimension :: "string \<Rightarrow> dimension" where
  "plain_dimension n = \<lparr>name = n, dim_str = n, formatter = None, type_formatter = None\<rparr>"

definition curve :: "string \<Rightarrow> string \<Rightarrow> frame" where
  "curve grp lbl =
     \<lparr>type_name = ''Curve'', group = grp, label = lbl,
      frame_dimensions = [plain_dimension ''x'', plain_dimension ''y''], ndims = 1,
      frame_range = (\<lambda>i. if i = 0 then (Num 0, Num 10) else (Num (- 1), Num 1)),
      extents = [ENone, ENone, ENone, ENone],
      is_composite = False, is_3d = False, norm_framewise = False\<rparr>"

text \<open>A map over one key dimension \<open>t\<close> with five curves, labelled A to E.\<close>

definition five_curves :: holomap where
  "five_curves =
     \<lparr>key_dimensions = [''t''], map_type = ''Curve'', traverse_extents = [],
      data = [(TupleV [IntV 0], curve ''Curve'' ''A''), (TupleV [IntV 1], curve ''Curve'' ''B''),
              (TupleV [IntV 2], curve ''Curve'' ''C''), (TupleV [IntV 3], curve ''Curve'' ''D''),
              (TupleV [IntV 4], curve ''Curve'' ''E'')]\<rparr>"

text \<open>A map over \<open>t\<close> with two curves of the same group and label.\<close>

definition curve_pair :: "string \<Rightarrow> string \<Rightarrow> holomap" where
  "curve_pair grp lbl =
     \<lparr>key_dimensions = [''t''], map_type = ''Curve'', traverse_extents = [],
      data = [(TupleV [IntV 0], curve grp lbl), (TupleV [IntV 1], curve grp lbl)]\<rparr>"

text \<open>
  The map \<^verbatim>\<open>__init__\<close> wraps a single element in:
  \<^verbatim>\<open>HoloMap(initial_items=(0, element), key_dimensions=['Frame'])\<close>.
\<close>

definition single_frame :: "frame \<Rightarrow> holomap" where
  "single_frame f =
     \<lparr>key_dimensions = [''Frame''], map_type = type_name f, traverse_extents = [extents f],
      data = [(TupleV [IntV 0], f)]\<rparr>"

definition new_dir :: axis_dir where
  "new_dir =
     \<lparr>axis_label = None, label_position = ''default'', ticks_position = ''default'',
      visible = True, grid = False, lim = None, scale = ''linear'', inverted = False,
      major_formatter = None, major_locator = None, ticks = None, ticklabels = None,
      tick_rotation = 0\<rparr>"

definition new_axis :: axis where
  "new_axis =
     \<lparr>x_dir = new_dir, y_dir = new_dir, z_dir = new_dir, axis_bgcolor = None,
      axis_title = None, axis_legend = None, auto_handles = [], auto_labels = [],
      axis_aspect = AspectStr ''auto'', spine_top = True, spine_bottom = True,
      spine_left = True, spine_right = True, tick_params = None\<rparr>"

text \<open>
  A plot of a map with the defaults the parameters of \<^verbatim>\<open>ElementPlot\<close> declare, on a new
  axis.
\<close>

definition default_plot :: "holomap \<Rightarrow> plot" where
  "default_plot m =
     \<lparr>dimensions = Some (key_dimensions m), plot_map = m, uniform = True, overlaid = 0,
      zorder = 0, projection = None, apply_ranges = True, apply_extents = True,
      apply_ticks = True, aspect = AspectStr ''square'', bgcolor = None, hidden_labels = [],
      invert_xaxis = False, invert_yaxis = False, logx = False, logy = False, logz = False,
      show_legend = False, show_grid = False, show_title = True, show_frame = True,
      xaxis = Some ''bottom'', yaxis = Some ''left'', zaxis = True,
      xticks = 5, yticks = 5, zticks = 5, xticker = None, yticker = None, zticker = None,
      xrotation = 0, yrotation = 0, zrotation = 0, title_format = ''{label} {group}'',
      layout_dimensions = None, subplots = [], handles_axis = new_axis,
      handles_title = None, warnings = []\<rparr>"

text \<open>
  A selection for the examples: with every key dimension given, the item under exactly
  that key, or a KeyError; with no key dimension given, the whole map.
\<close>

definition exact_select :: "holomap \<Rightarrow> (string \<rightharpoonup> pyval) \<Rightarrow> error + selection" where
  "exact_select m sel =
     (if list_all (\<lambda>d. sel d = None) (key_dimensions m) then Inr (SelMap m)
      else
        (case map_of (data m)
                (TupleV (map (\<lambda>d. case sel d of None \<Rightarrow> NoneV | Some v \<Rightarrow> v)
                           (key_dimensions m))) of
           None \<Rightarrow> Inl KeyError
         | Some f \<Rightarrow> Inr (SelOther (Some f))))"

text \<open>
  Collaborators for the examples: the suffix of a title is \<open>t=k\<close> for an integer key \<open>k\<close>
  between 0 and 9 of a plot with more than one frame and empty otherwise, the data ratio
  of an axis is one half, and the base class returns the plot as it is. The templates of
  the examples have plain fields only.
\<close>

definition digit :: "int \<Rightarrow> string" where
  "digit k = [''0123456789'' ! nat k]"

definition example_base :: "unit base" where
  "example_base =
     \<lparr>select = exact_select,
      max_extents = (\<lambda>es three_d. replicate (if three_d then 6 else 4) NaN),
      frame_title = (\<lambda>p key n.
         if length (data (plot_map p)) \<le> 1 then Some []
         else (case key of IntV k \<Rightarrow> if 0 \<le> k \<and> k < 10 then Some (''t='' @ digit k) else Some []
               | _ \<Rightarrow> Some [])),
      fontsize = (\<lambda>p k. []),
      tick_fontsize = (\<lambda>p. []),
      subplot_label = (\<lambda>p a. a),
      get_data_ratio = (\<lambda>a. 1 / 2),
      plot_finalize_axis = (\<lambda>p key. (p, ())),
      format_field = (\<lambda>kw f. Inl ValueError)\<rparr>"

text \<open>
  A plain overlay plot for the legend example: three subplots with the legend handles
  \<open>h1\<close>, \<open>h2\<close>, \<open>h1\<close> over layers labelled A, B, A, and the legend it gets.
\<close>

definition legend_subplot :: "nat \<Rightarrow> subplot" where
  "legend_subplot n =
     \<lparr>is_overlay_plot = False, sp_legend_data = None, sp_legend_handle = Some (Artist n)\<rparr>"

definition labelled_layer :: "string \<Rightarrow> layer" where
  "labelled_layer l = \<lparr>layer_truthy = True, layer_label = l\<rparr>"

definition example_overlay_plot :: overlay_plot where
  "example_overlay_plot =
     plot.extend ((default_plot five_curves)\<lparr>show_legend := True\<rparr>)
       (overlay_plot.fields 2 ''inner'' False
          \<lparr>ov_key_dimensions = [],
           ov_data = [(StrV ''a'', labelled_layer ''A''), (StrV ''b'', labelled_layer ''B''),
                      (StrV ''c'', labelled_layer ''A'')]\<rparr>
          [(StrV ''a'', legend_subplot 1), (StrV ''b'', legend_subplot 2),
           (StrV ''c'', legend_subplot 1)]
          None None)"

definition example_legend :: legend where
  "example_legend =
     \<lparr>legend_visible = True, legend_handles = [Artist 1, Artist 2],
      legend_labels = [''A'', ''B''], legend_title = [],
      legend_kwargs = [(''scatterpoints'', IntV 1)],
      frame_facecolor = ''1.0'', frame_edgecolor = ''0.0'', frame_linewidth = ''1.0''\<rparr>"

section \<open>Properties of frame selection\<close>

lemma list_index_absent: "x \<notin> set xs \<Longrightarrow> list_index xs x = Inl ValueError"
  by (induction xs) auto

lemma list_index_present: "x \<in> set xs \<Longrightarrow> \<exists>i < length xs. list_index xs x = Inr i"
  by (induction xs) auto

lemma py_index_nat: "i < length xs \<Longrightarrow> py_index xs (int i) = Inr (xs ! i)"
  by (simp add: py_index_def)

lemma py_index_cases: "py_index xs i = Inl IndexError \<or> (\<exists>v. py_index xs i = Inr v)"
  by (simp add: py_index_def Let_def)

lemma select_step_absent:
  "k \<notin> set dims \<Longrightarrow> select_by_position dims key (k # ks) acc = Inl ValueError"
  by (simp add: list_index_absent)

lemma select_step_short:
  "list_index dims k = Inr i \<Longrightarrow> py_index key (int i) = Inl IndexError \<Longrightarrow>
   select_by_position dims key (k # ks) acc = Inl IndexError"
  by simp

lemma select_step_found:
  "list_index dims k = Inr i \<Longrightarrow> py_index key (int i) = Inr v \<Longrightarrow>
   select_by_position dims key (k # ks) acc = select_by_position dims key ks (acc(k \<mapsto> v))"
  by simp

lemma select_by_position_absent:
  "d \<in> set ks \<Longrightarrow> d \<notin> set dims \<Longrightarrow>
   select_by_position dims key ks acc = Inl ValueError \<or>
   select_by_position dims key ks acc = Inl IndexError"
proof (induction ks arbitrary: acc)
  case Nil
  then show ?case by simp
next
  case (Cons k ks)
  show ?case
  proof (cases "k \<in> set dims")
    case False
    then show ?thesis by (simp only: select_step_absent simp_thms)
  next
    case True
    from list_index_present [OF True] obtain i where i: "list_index dims k = Inr i"
      by (elim exE conjE)
    from True Cons.prems have dks: "d \<in> set ks" by auto
    from py_index_cases [of key "int i"] show ?thesis
    proof (elim disjE exE)
      assume "py_index key (int i) = Inl IndexError"
      with i show ?thesis by (simp only: select_step_short simp_thms)
    next
      fix v assume v: "py_index key (int i) = Inr v"
      show ?thesis
        unfolding select_step_found [OF i v]
        by (rule Cons.IH [OF dks Cons.prems(2)])
    qed
  qed
qed

lemma select_by_position_absent_long:
  "d \<in> set ks \<Longrightarrow> d \<notin> set dims \<Longrightarrow> length dims \<le> length key \<Longrightarrow>
   select_by_position dims key ks acc = Inl ValueError"
proof (induction ks arbitrary: acc)
  case Nil
  then show ?case by simp
next
  case (Cons k ks)
  show ?case
  proof (cases "k \<in> set dims")
    case False
    then show ?thesis by (rule select_step_absent)
  next
    case True
    from list_index_present [OF True] obtain i
      where i: "i < length dims" "list_index dims k = Inr i"
      by (elim exE conjE)
    from True Cons.prems have dks: "d \<in> set ks" by auto
    from i(1) Cons.prems(3) have "i < length key" by simp
    then have v: "py_index key (int i) = Inr (key ! i)" by (rule py_index_nat)
    show ?thesis
      unfolding select_step_found [OF i(2) v]
      by (rule Cons.IH [OF dks Cons.prems(2,3)])
  qed
qed

lemma frame_lookup_uniform:
  "uniform p \<Longrightarrow> dimensions p = Some dims \<Longrightarrow> key_dimensions (plot_map p) \<noteq> [''Frame''] \<Longrightarrow>
   frame_lookup p key =
     map_sum id Select
       (select_by_position dims (normalize_key key) (key_dimensions (plot_map p)) Map.empty)"
  by (simp add: frame_lookup_def Let_def)

lemma get_frame_lookup_error: "frame_lookup p key = Inl e \<Longrightarrow> get_frame b p key = Inl e"
  by (simp add: get_frame_def)

lemma get_frame_nonuniform_int:
  "\<not> uniform p \<Longrightarrow> get_frame b p (IntV k) =
     (let vals = map_values (plot_map p); n = int (length vals)
      in if vals = [] \<or> k < - n then Inl IndexError
         else if 0 \<le> k then Inr (Some (vals ! nat (min k (n - 1))))
         else Inr (Some (vals ! nat (n + k))))"
  by (auto simp add: get_frame_def frame_lookup_def py_index_def map_values_def Let_def min_def)

lemma plot_map_default [simp]: "plot_map (default_plot m) = m"
  by (simp add: default_plot_def)

lemma uniform_default [simp]: "uniform (default_plot m) = True"
  by (simp add: default_plot_def)

lemma dimensions_default [simp]: "dimensions (default_plot m) = Some (key_dimensions m)"
  by (simp add: default_plot_def)

lemma map_values_five_curves:
  "map_values five_curves =
     [curve ''Curve'' ''A'', curve ''Curve'' ''B'', curve ''Curve'' ''C'',
      curve ''Curve'' ''D'', curve ''Curve'' ''E'']"
  by (simp add: map_values_def five_curves_def)

lemma key_dimensions_five_curves [simp]: "key_dimensions five_curves = [''t'']"
  by (simp add: five_curves_def)

lemma select_example [simp]: "select example_base = exact_select"
  by (simp add: example_base_def)

text \<open>
  C3. When the selection is reached and \<^verbatim>\<open>select\<close> raises a KeyError, \<^verbatim>\<open>_get_frame\<close> returns
  None instead of raising; when \<^verbatim>\<open>select\<close> returns a \<^verbatim>\<open>HoloMap\<close>, the last item of that map
  is returned; any other result of \<^verbatim>\<open>select\<close> is returned as it is.
\<close>

theorem get_frame_lenient:
  assumes "frame_lookup p key = Inr (Select sel)"
  shows "(select b (plot_map p) sel = Inl KeyError \<longrightarrow> get_frame b p key = Inr None)
       \<and> (select b (plot_map p) sel = Inr (SelMap m) \<longrightarrow>
            get_frame b p key = Inr (last_frame m)
            \<and> (data m \<noteq> [] \<longrightarrow> last_frame m = Some (snd (last (data m)))))
       \<and> (select b (plot_map p) sel = Inr (SelOther r) \<longrightarrow> get_frame b p key = Inr r)"
  using assms by (simp add: get_frame_def last_frame_def)

lemma fl7: "frame_lookup (default_plot five_curves) (IntV 7) = Inr (Select [''t'' \<mapsto> IntV 7])"
  by (simp add: frame_lookup_def normalize_key_def py_index_def)

lemma sel7: "exact_select five_curves [''t'' \<mapsto> IntV 7] = Inl KeyError"
  by (simp add: exact_select_def five_curves_def)

lemma fl3: "frame_lookup (default_plot five_curves) (IntV 3) = Inr (Select [''t'' \<mapsto> IntV 3])"
  by (simp add: frame_lookup_def normalize_key_def py_index_def)

lemma sel3: "exact_select five_curves [''t'' \<mapsto> IntV 3] = Inr (SelOther (Some (curve ''Curve'' ''D'')))"
  by (simp add: exact_select_def five_curves_def)

lemma fl0: "frame_lookup (default_plot (five_curves\<lparr>key_dimensions := []\<rparr>)) (IntV 0) = Inr (Select Map.empty)"
  by (simp add: frame_lookup_def normalize_key_def)

lemma sel0: "exact_select (five_curves\<lparr>key_dimensions := []\<rparr>) Map.empty = Inr (SelMap (five_curves\<lparr>key_dimensions := []\<rparr>))"
  by (simp add: exact_select_def)

lemma last0: "last_frame (five_curves\<lparr>key_dimensions := []\<rparr>) = Some (curve ''Curve'' ''E'')"
  by (simp add: last_frame_def five_curves_def)

theorem get_frame_lenient_witness:
  "frame_lookup (default_plot five_curves) (IntV 7) = Inr (Select [''t'' \<mapsto> IntV 7])
   \<and> select example_base five_curves [''t'' \<mapsto> IntV 7] = Inl KeyError
   \<and> get_frame example_base (default_plot five_curves) (IntV 7) = Inr None
   \<and> get_frame example_base (default_plot five_curves) (IntV 3) = Inr (Some (curve ''Curve'' ''D''))
   \<and> get_frame example_base (default_plot (five_curves\<lparr>key_dimensions := []\<rparr>)) (IntV 0)
       = Inr (Some (curve ''Curve'' ''E''))"
proof -
  have a: "get_frame example_base (default_plot five_curves) (IntV 7) = Inr None"
    using get_frame_lenient [OF fl7, of example_base five_curves None] sel7 by simp
  have b: "get_frame example_base (default_plot five_curves) (IntV 3)
             = Inr (Some (curve ''Curve'' ''D''))"
    using get_frame_lenient [OF fl3, of example_base five_curves "Some (curve ''Curve'' ''D'')"]
      sel3 by simp
  have c: "get_frame example_base (default_plot (five_curves\<lparr>key_dimensions := []\<rparr>)) (IntV 0)
             = Inr (Some (curve ''Curve'' ''E''))"
    using get_frame_lenient [OF fl0, of example_base "five_curves\<lparr>key_dimensions := []\<rparr>" None]
      sel0 last0 by simp
  from a b c fl7 sel7 show ?thesis by simp
qed

text \<open>
  C5 (as amended). In non-uniform mode an integer key \<open>k\<close> selects by position: on a
  sequence of \<open>n > 0\<close> frames, a key \<open>k \<ge> 0\<close> gives the frame at index
  \<open>min k (n - 1)\<close>, a key with \<open>- n \<le> k < 0\<close> gives the frame at index \<open>n + k\<close>
  (Python counts a negative index from the end), and a key below \<open>- n\<close>, or any key on
  an empty sequence, raises IndexError.
\<close>

theorem get_frame_clamps:
  assumes "\<not> uniform p"
  shows "get_frame b p (IntV k) =
     (let vals = map_values (plot_map p); n = int (length vals)
      in if vals = [] \<or> k < - n then Inl IndexError
         else if 0 \<le> k then Inr (Some (vals ! nat (min k (n - 1))))
         else Inr (Some (vals ! nat (n + k))))"
  using assms by (rule get_frame_nonuniform_int)

theorem get_frame_clamps_witness:
  "\<not> uniform ((default_plot five_curves)\<lparr>uniform := False\<rparr>)
   \<and> length (map_values five_curves) = 5
   \<and> get_frame example_base ((default_plot five_curves)\<lparr>uniform := False\<rparr>) (IntV 99)
       = Inr (Some (map_values five_curves ! 4))"
  using get_frame_clamps [of "(default_plot five_curves)\<lparr>uniform := False\<rparr>" example_base 99]
  by (simp add: map_values_five_curves)

theorem get_frame_negative_key_counterexample:
  "get_frame example_base ((default_plot five_curves)\<lparr>uniform := False\<rparr>) (IntV (- 6))
     = Inl IndexError"
  using get_frame_nonuniform_int [of "(default_plot five_curves)\<lparr>uniform := False\<rparr>" example_base "- 6"]
  by (simp add: map_values_five_curves)

text \<open>
  C10 (as amended). \<^verbatim>\<open>_get_frame\<close> is lenient about one failure only, a KeyError of
  \<^verbatim>\<open>select\<close>, which gives None. Any exception raised while the selection is built, and any
  other exception of \<^verbatim>\<open>select\<close>, reaches the caller. In uniform mode, when a key dimension of
  the map is not among the declared dimensions of the plot (and the key dimensions are not
  the single synthetic \<open>Frame\<close>), building the selection raises: a ValueError, or an
  IndexError when the key tuple is too short for the position of an earlier key dimension.
  It is a ValueError whenever the key has at least as many values as there are declared
  dimensions. Neither is caught, so the result is never None.
\<close>

theorem get_frame_dimension_mismatch:
  "(frame_lookup p key = Inl e \<longrightarrow> get_frame b p key = Inl e)
   \<and> (frame_lookup p key = Inr (Select sel) \<and> select b (plot_map p) sel = Inl KeyError \<longrightarrow>
        get_frame b p key = Inr None)
   \<and> (frame_lookup p key = Inr (Select sel) \<and> select b (plot_map p) sel = Inl e
        \<and> e \<noteq> KeyError \<longrightarrow> get_frame b p key = Inl e)
   \<and> (uniform p \<and> dimensions p = Some dims \<and> d \<in> set (key_dimensions (plot_map p))
        \<and> d \<notin> set dims \<and> key_dimensions (plot_map p) \<noteq> [''Frame''] \<longrightarrow>
        (frame_lookup p key = Inl ValueError \<or> frame_lookup p key = Inl IndexError)
        \<and> (get_frame b p key = Inl ValueError \<or> get_frame b p key = Inl IndexError)
        \<and> (length dims \<le> length (normalize_key key) \<longrightarrow>
             frame_lookup p key = Inl ValueError \<and> get_frame b p key = Inl ValueError))"
proof -
  have a: "frame_lookup p key = Inl e \<longrightarrow> get_frame b p key = Inl e"
    by (simp add: get_frame_lookup_error)
  have b: "frame_lookup p key = Inr (Select sel) \<and> select b (plot_map p) sel = Inl KeyError \<longrightarrow>
        get_frame b p key = Inr None"
    by (simp add: get_frame_def)
  have c: "frame_lookup p key = Inr (Select sel) \<and> select b (plot_map p) sel = Inl e
        \<and> e \<noteq> KeyError \<longrightarrow> get_frame b p key = Inl e"
    by (simp add: get_frame_def)
  have d: "(frame_lookup p key = Inl ValueError \<or> frame_lookup p key = Inl IndexError)
        \<and> (get_frame b p key = Inl ValueError \<or> get_frame b p key = Inl IndexError)
        \<and> (length dims \<le> length (normalize_key key) \<longrightarrow>
             frame_lookup p key = Inl ValueError \<and> get_frame b p key = Inl ValueError)"
    if h: "uniform p" "dimensions p = Some dims" "d \<in> set (key_dimensions (plot_map p))"
      "d \<notin> set dims" "key_dimensions (plot_map p) \<noteq> [''Frame'']"
  proof -
    let ?s = "select_by_position dims (normalize_key key) (key_dimensions (plot_map p)) Map.empty"
    have fl: "frame_lookup p key = map_sum id Select ?s"
      using h(1,2,5) by (rule frame_lookup_uniform)
    have "?s = Inl ValueError \<or> ?s = Inl IndexError"
      using h(3,4) by (rule select_by_position_absent)
    then have d1: "frame_lookup p key = Inl ValueError \<or> frame_lookup p key = Inl IndexError"
      using fl by auto
    then have d2: "get_frame b p key = Inl ValueError \<or> get_frame b p key = Inl IndexError"
      by (auto simp add: get_frame_lookup_error)
    have d3: "frame_lookup p key = Inl ValueError \<and> get_frame b p key = Inl ValueError"
      if "length dims \<le> length (normalize_key key)"
    proof -
      have "?s = Inl ValueError"
        using h(3,4) that by (rule select_by_position_absent_long)
      with fl have "frame_lookup p key = Inl ValueError" by simp
      then show ?thesis by (simp add: get_frame_lookup_error)
    qed
    from d1 d2 d3 show ?thesis by simp
  qed
  have d': "uniform p \<and> dimensions p = Some dims \<and> d \<in> set (key_dimensions (plot_map p))
        \<and> d \<notin> set dims \<and> key_dimensions (plot_map p) \<noteq> [''Frame''] \<longrightarrow>
        (frame_lookup p key = Inl ValueError \<or> frame_lookup p key = Inl IndexError)
        \<and> (get_frame b p key = Inl ValueError \<or> get_frame b p key = Inl IndexError)
        \<and> (length dims \<le> length (normalize_key key) \<longrightarrow>
             frame_lookup p key = Inl ValueError \<and> get_frame b p key = Inl ValueError)"
  proof (intro impI, elim conjE)
    assume "uniform p" "dimensions p = Some dims" "d \<in> set (key_dimensions (plot_map p))"
      "d \<notin> set dims" "key_dimensions (plot_map p) \<noteq> [''Frame'']"
    then show "(frame_lookup p key = Inl ValueError \<or> frame_lookup p key = Inl IndexError)
        \<and> (get_frame b p key = Inl ValueError \<or> get_frame b p key = Inl IndexError)
        \<and> (length dims \<le> length (normalize_key key) \<longrightarrow>
             frame_lookup p key = Inl ValueError \<and> get_frame b p key = Inl ValueError)"
      by (rule d)
  qed
  from a b c d' show ?thesis by (intro conjI)
qed

lemma frame_lookup_undeclared_example:
  "frame_lookup ((default_plot five_curves)\<lparr>dimensions := Some [''u'']\<rparr>) (IntV 3)
     = Inl ValueError"
  by (simp add: frame_lookup_def normalize_key_def)

theorem get_frame_dimension_mismatch_witness:
  "get_frame example_base ((default_plot five_curves)\<lparr>dimensions := Some [''u'']\<rparr>) (IntV 3)
     = Inl ValueError
   \<and> get_frame example_base (default_plot five_curves) (IntV 7) = Inr None
   \<and> get_frame (example_base\<lparr>select := \<lambda>m s. Inl TypeError\<rparr>) (default_plot five_curves)
        (IntV 3) = Inl TypeError"
proof -
  let ?q = "(default_plot five_curves)\<lparr>dimensions := Some [''u'']\<rparr>"
  have a: "get_frame example_base ?q (IntV 3) = Inl ValueError"
    using get_frame_dimension_mismatch
      [where p = ?q and key = "IntV 3" and e = ValueError and b = example_base
         and dims = "[''u'']" and d = "''t''"]
      frame_lookup_undeclared_example
    by (simp add: normalize_key_def)
  have b: "get_frame example_base (default_plot five_curves) (IntV 7) = Inr None"
    using get_frame_dimension_mismatch
      [where p = "default_plot five_curves" and key = "IntV 7" and b = example_base
         and sel = "[''t'' \<mapsto> IntV 7]"]
      fl7 sel7
    by simp
  have c: "get_frame (example_base\<lparr>select := \<lambda>m s. Inl TypeError\<rparr>) (default_plot five_curves)
        (IntV 3) = Inl TypeError"
    using get_frame_dimension_mismatch
      [where p = "default_plot five_curves" and key = "IntV 3"
         and b = "example_base\<lparr>select := \<lambda>m s. Inl TypeError\<rparr>"
         and sel = "[''t'' \<mapsto> IntV 3]" and e = TypeError]
      fl3
    by simp
  from a b c show ?thesis by (intro conjI)
qed

theorem get_frame_short_key_counterexample:
  "get_frame example_base
     ((default_plot (five_curves\<lparr>key_dimensions := [''t'', ''u'']\<rparr>))\<lparr>dimensions := Some [''t'']\<rparr>)
     (TupleV []) = Inl IndexError"
  by (simp add: get_frame_def frame_lookup_def normalize_key_def py_index_def)

section \<open>Properties of axis decoration\<close>

lemma logx_default [simp]: "logx (default_plot m) = False"
  by (simp add: default_plot_def)

lemma logy_default [simp]: "logy (default_plot m) = False"
  by (simp add: default_plot_def)

lemma aspect_default [simp]: "aspect (default_plot m) = AspectStr ''square''"
  by (simp add: default_plot_def)

lemma get_data_ratio_example [simp]: "get_data_ratio example_base a = 1 / 2"
  by (simp add: example_base_def)

text \<open>
  C9. When \<open>logx\<close> and \<open>logy\<close> are both set, \<^verbatim>\<open>_finalize_axes\<close> sets the scale of the x axis
  to log and leaves the scale of the y axis as it was: the y axis gets the log scale only
  when \<open>logy\<close> is set and \<open>logx\<close> is not.
\<close>

theorem finalize_axes_log_exclusive:
  "(logx p \<and> logy p \<longrightarrow>
      scale (x_dir (finalize_axes p axis)) = ''log''
      \<and> scale (y_dir (finalize_axes p axis)) = scale (y_dir axis))
   \<and> scale (x_dir (finalize_axes p axis)) = (if logx p then ''log'' else scale (x_dir axis))
   \<and> scale (y_dir (finalize_axes p axis))
       = (if \<not> logx p \<and> logy p then ''log'' else scale (y_dir axis))"
  by (simp add: finalize_axes_def Let_def)

theorem finalize_axes_log_exclusive_witness:
  "logx ((default_plot five_curves)\<lparr>logx := True, logy := True\<rparr>)
   \<and> logy ((default_plot five_curves)\<lparr>logx := True, logy := True\<rparr>)
   \<and> scale (x_dir (finalize_axes ((default_plot five_curves)\<lparr>logx := True, logy := True\<rparr>)
         new_axis)) = ''log''
   \<and> scale (y_dir (finalize_axes ((default_plot five_curves)\<lparr>logx := True, logy := True\<rparr>)
         new_axis)) = ''linear''"
  using finalize_axes_log_exclusive
    [of "(default_plot five_curves)\<lparr>logx := True, logy := True\<rparr>" new_axis]
  by (simp add: new_axis_def new_dir_def)

text \<open>
  C7. \<^verbatim>\<open>_apply_aspect\<close> leaves the axis alone when \<open>logx\<close> or \<open>logy\<close> is set. Otherwise the
  aspect \<open>square\<close> sets the aspect of the axis to \<open>1 / data_ratio\<close>, a number \<open>a\<close> sets it
  to \<open>(1 / data_ratio) / a\<close>, and any other string is passed on as it is. The divisions
  are defined when the data ratio and \<open>a\<close> are not zero. With a data ratio of one half,
  \<open>square\<close> gives 2 and the number 4 gives one half.
\<close>

theorem apply_aspect_policy:
  "(logx p \<or> logy p \<longrightarrow> apply_aspect b p axis = Inr axis)
   \<and> (\<not> logx p \<and> \<not> logy p \<and> aspect p = AspectStr ''square'' \<and> get_data_ratio b axis \<noteq> 0 \<longrightarrow>
        apply_aspect b p axis = Inr (axis\<lparr>axis_aspect := AspectNum (1 / get_data_ratio b axis)\<rparr>))
   \<and> (\<not> logx p \<and> \<not> logy p \<and> aspect p = AspectNum a \<and> get_data_ratio b axis \<noteq> 0 \<and> a \<noteq> 0 \<longrightarrow>
        apply_aspect b p axis
          = Inr (axis\<lparr>axis_aspect := AspectNum ((1 / get_data_ratio b axis) / a)\<rparr>))
   \<and> (\<not> logx p \<and> \<not> logy p \<and> aspect p = AspectStr s \<and> s \<noteq> ''square'' \<longrightarrow>
        apply_aspect b p axis = Inr (axis\<lparr>axis_aspect := AspectStr s\<rparr>))"
  by (simp add: apply_aspect_def py_div_def bind_err_def)

theorem apply_aspect_policy_witness:
  "apply_aspect example_base ((default_plot five_curves)\<lparr>logy := True\<rparr>) new_axis = Inr new_axis
   \<and> apply_aspect example_base (default_plot five_curves) new_axis
       = Inr (new_axis\<lparr>axis_aspect := AspectNum 2\<rparr>)
   \<and> apply_aspect example_base ((default_plot five_curves)\<lparr>aspect := AspectNum 4\<rparr>) new_axis
       = Inr (new_axis\<lparr>axis_aspect := AspectNum (1 / 2)\<rparr>)
   \<and> apply_aspect example_base ((default_plot five_curves)\<lparr>aspect := AspectStr ''equal''\<rparr>) new_axis
       = Inr (new_axis\<lparr>axis_aspect := AspectStr ''equal''\<rparr>)"
  using apply_aspect_policy [of "(default_plot five_curves)\<lparr>logy := True\<rparr>" example_base new_axis 4 "''equal''"]
    apply_aspect_policy [of "default_plot five_curves" example_base new_axis 4 "''equal''"]
    apply_aspect_policy [of "(default_plot five_curves)\<lparr>aspect := AspectNum 4\<rparr>" example_base new_axis 4 "''equal''"]
    apply_aspect_policy [of "(default_plot five_curves)\<lparr>aspect := AspectStr ''equal''\<rparr>" example_base new_axis 4 "''equal''"]
  by simp

section \<open>Properties of axis finalization\<close>

lemma set_bgcolor_eq:
  "set_bgcolor p =
     p\<lparr>handles_axis := (handles_axis p)\<lparr>axis_bgcolor :=
          (if str_truthy (bgcolor p) then bgcolor p else axis_bgcolor (handles_axis p))\<rparr>\<rparr>"
  by (simp add: set_bgcolor_def)

lemma frame_lookup_set_bgcolor: "frame_lookup (set_bgcolor p) key = frame_lookup p key"
  by (cases key) (simp_all add: set_bgcolor_def frame_lookup_def)

lemma plot_map_set_bgcolor: "plot_map (set_bgcolor p) = plot_map p"
  by (simp add: set_bgcolor_def)

lemma get_frame_set_bgcolor: "get_frame b (set_bgcolor p) key = get_frame b p key"
  unfolding get_frame_def frame_lookup_set_bgcolor plot_map_set_bgcolor by (rule refl)

lemma zorder_set_bgcolor: "zorder (set_bgcolor p) = zorder p"
  by (simp add: set_bgcolor_def)

lemma run_hooks_fold: "run_hooks hooks view p = fold (\<lambda>h q. try_hook h view q) hooks p"
  by (induction hooks arbitrary: p) simp_all

lemma zorder_default [simp]: "zorder (default_plot m) = 0"
  by (simp add: default_plot_def)

lemma bgcolor_default [simp]: "bgcolor (default_plot m) = None"
  by (simp add: default_plot_def)

lemma plot_finalize_axis_example [simp]: "plot_finalize_axis example_base p key = (p, ())"
  by (simp add: example_base_def)

lemma before_hooks_skipped:
  "zorder p \<noteq> 0 \<or> key = NoneV \<Longrightarrow>
   before_hooks b p key title rs xtks ytks ztks xlabel ylabel zlabel
     = bind_err (get_frame b p key) (\<lambda>view. Inr (view, set_bgcolor p))"
  by (auto simp add: before_hooks_def Let_def get_frame_set_bgcolor zorder_set_bgcolor
      bind_err_def split: sum.splits)

lemma get_frame_layer_example:
  "get_frame example_base ((default_plot five_curves)\<lparr>zorder := 1\<rparr>) (IntV 3)
     = Inr (Some (curve ''Curve'' ''D''))"
  by (simp add: get_frame_def frame_lookup_def normalize_key_def py_index_def sel3)

lemma before_hooks_layer_example:
  "before_hooks example_base ((default_plot five_curves)\<lparr>zorder := 1\<rparr>) (IntV 3)
     None None None None None None None None
     = Inr (Some (curve ''Curve'' ''D''), (default_plot five_curves)\<lparr>zorder := 1\<rparr>)"
  by (simp add: before_hooks_skipped get_frame_layer_example bind_err_def set_bgcolor_def
      str_truthy_def)

text \<open>
  C8. In a plot whose z-order is not 0 (or when the key is None), \<^verbatim>\<open>_finalize_axis\<close> skips
  the whole decoration: if the frame selection does not raise, the plot handed to the hooks
  is the plot as it was, with at most the background colour of the axis set; the title,
  the labels, grids, limits, scales and ticks of the three directions, the legend, the
  aspect and the spines of the axis are as they were.
\<close>

theorem finalize_axis_zorder_gate:
  assumes "zorder p \<noteq> 0 \<or> key = NoneV"
  shows "before_hooks b p key title rs xtks ytks ztks xlabel ylabel zlabel
           = bind_err (get_frame b p key) (\<lambda>view. Inr (view,
               p\<lparr>handles_axis := (handles_axis p)\<lparr>axis_bgcolor :=
                    (if str_truthy (bgcolor p) then bgcolor p
                     else axis_bgcolor (handles_axis p))\<rparr>\<rparr>))
         \<and> finalize_axis b [] p key title rs xtks ytks ztks xlabel ylabel zlabel
           = bind_err (get_frame b p key) (\<lambda>view. Inr (plot_finalize_axis b
               (p\<lparr>handles_axis := (handles_axis p)\<lparr>axis_bgcolor :=
                    (if str_truthy (bgcolor p) then bgcolor p
                     else axis_bgcolor (handles_axis p))\<rparr>\<rparr>) key))"
proof -
  have a: "before_hooks b p key title rs xtks ytks ztks xlabel ylabel zlabel
             = bind_err (get_frame b p key) (\<lambda>view. Inr (view, set_bgcolor p))"
    using assms by (rule before_hooks_skipped)
  have b: "finalize_axis b [] p key title rs xtks ytks ztks xlabel ylabel zlabel
             = bind_err (get_frame b p key)
                 (\<lambda>view. Inr (plot_finalize_axis b (set_bgcolor p) key))"
    unfolding finalize_axis_def a by (simp add: bind_err_def split: sum.splits)
  from a b show ?thesis unfolding set_bgcolor_eq by (intro conjI)
qed

theorem finalize_axis_zorder_gate_witness:
  "zorder ((default_plot five_curves)\<lparr>zorder := 1\<rparr>) \<noteq> 0
   \<and> before_hooks example_base ((default_plot five_curves)\<lparr>zorder := 1\<rparr>) (IntV 3)
        None None None None None None None None
       = Inr (Some (curve ''Curve'' ''D''), (default_plot five_curves)\<lparr>zorder := 1\<rparr>)
   \<and> finalize_axis example_base [] ((default_plot five_curves)\<lparr>zorder := 1\<rparr>) (IntV 3)
        None None None None None None None None
       = Inr ((default_plot five_curves)\<lparr>zorder := 1\<rparr>, ())"
  using finalize_axis_zorder_gate
    [of "(default_plot five_curves)\<lparr>zorder := 1\<rparr>" "IntV 3" example_base
        None None None None None None None None]
  by (simp add: get_frame_layer_example bind_err_def str_truthy_def)

text \<open>
  C4. The loop over the finalize hooks calls every hook, in order, with the plot as the
  hooks before it left it and with the selected frame. A hook that raises has its exception
  caught and reported by a warning, and the hooks after it are still called. Once the
  decoration before the loop has returned, \<^verbatim>\<open>_finalize_axis\<close> returns, whatever the hooks do:
  it fails exactly when the part before the loop fails.
\<close>

theorem finalize_hooks_isolated:
  "run_hooks hooks view p = fold (\<lambda>h q. try_hook h view q) hooks p
   \<and> (snd h p view = (p', None) \<longrightarrow> run_hooks (h # hs) view p = run_hooks hs view p')
   \<and> (snd h p view = (p', Some e) \<longrightarrow>
        run_hooks (h # hs) view p = run_hooks hs view (warning (hook_warning (fst h) e) p')
        \<and> warnings (warning (hook_warning (fst h) e) p') = warnings p' @ [hook_warning (fst h) e])
   \<and> (before_hooks b p key title rs xtks ytks ztks xlabel ylabel zlabel = Inr (view, p1) \<longrightarrow>
        finalize_axis b hooks p key title rs xtks ytks ztks xlabel ylabel zlabel
          = Inr (plot_finalize_axis b (run_hooks hooks view p1) key))
   \<and> (before_hooks b p key title rs xtks ytks ztks xlabel ylabel zlabel = Inl err \<longleftrightarrow>
        finalize_axis b hooks p key title rs xtks ytks ztks xlabel ylabel zlabel = Inl err)"
proof -
  have a: "run_hooks hooks view p = fold (\<lambda>h q. try_hook h view q) hooks p"
    by (rule run_hooks_fold)
  have b: "snd h p view = (p', None) \<longrightarrow> run_hooks (h # hs) view p = run_hooks hs view p'"
    by (simp add: try_hook_def)
  have c: "snd h p view = (p', Some e) \<longrightarrow>
        run_hooks (h # hs) view p = run_hooks hs view (warning (hook_warning (fst h) e) p')
        \<and> warnings (warning (hook_warning (fst h) e) p') = warnings p' @ [hook_warning (fst h) e]"
    by (simp add: try_hook_def warning_def)
  have d: "before_hooks b p key title rs xtks ytks ztks xlabel ylabel zlabel = Inr (view, p1) \<longrightarrow>
        finalize_axis b hooks p key title rs xtks ytks ztks xlabel ylabel zlabel
          = Inr (plot_finalize_axis b (run_hooks hooks view p1) key)"
    by (simp add: finalize_axis_def bind_err_def)
  have e: "before_hooks b p key title rs xtks ytks ztks xlabel ylabel zlabel = Inl err \<longleftrightarrow>
        finalize_axis b hooks p key title rs xtks ytks ztks xlabel ylabel zlabel = Inl err"
    by (simp add: finalize_axis_def bind_err_def split: sum.splits prod.splits)
  from a b c d e show ?thesis by (intro conjI)
qed

text \<open>Two hooks for the example: the first raises, the second switches the grid on.\<close>

theorem finalize_hooks_isolated_witness:
  "snd (''failing'', \<lambda>p v. (p, Some ''boom'')) ((default_plot five_curves)\<lparr>zorder := 1\<rparr>)
       (Some (curve ''Curve'' ''D''))
     = ((default_plot five_curves)\<lparr>zorder := 1\<rparr>, Some ''boom'')
   \<and> finalize_axis example_base
        [(''failing'', \<lambda>p v. (p, Some ''boom'')), (''grid'', \<lambda>p v. (p\<lparr>show_grid := True\<rparr>, None))]
        ((default_plot five_curves)\<lparr>zorder := 1\<rparr>) (IntV 3)
        None None None None None None None None
     = Inr ((default_plot five_curves)
              \<lparr>zorder := 1, show_grid := True,
               warnings := [hook_warning ''failing'' ''boom'']\<rparr>, ())"
proof -
  let ?p = "(default_plot five_curves)\<lparr>zorder := 1\<rparr>"
  let ?h1 = "(''failing'', \<lambda>(p::plot) (v::frame option). (p, Some ''boom''))"
  let ?h2 = "(''grid'', \<lambda>(p::plot) (v::frame option). (p\<lparr>show_grid := True\<rparr>, None::string option))"
  let ?view = "Some (curve ''Curve'' ''D'')"
  note t = finalize_hooks_isolated
    [where hooks = "[?h1, ?h2]" and view = ?view and p = ?p and h = ?h1 and p' = ?p
       and hs = "[?h2]" and e = "''boom''" and b = example_base and key = "IntV 3"
       and title = None and rs = None and xtks = None and ytks = None and ztks = None
       and xlabel = None and ylabel = None and zlabel = None and ?p1.0 = ?p
       and err = KeyError]
  have w: "warnings ?p = []" by (simp add: default_plot_def)
  have "run_hooks [?h1, ?h2] ?view ?p
          = ?p\<lparr>show_grid := True, warnings := [hook_warning ''failing'' ''boom'']\<rparr>"
    using t w by (simp add: try_hook_def warning_def)
  moreover have "finalize_axis example_base [?h1, ?h2] ?p (IntV 3)
        None None None None None None None None
      = Inr (plot_finalize_axis example_base (run_hooks [?h1, ?h2] ?view ?p) (IntV 3))"
    using t before_hooks_layer_example by simp
  ultimately show ?thesis by simp
qed

section \<open>Properties of the extents\<close>

lemma length_range_extents:
  "range_extents p view rs = Inr re \<Longrightarrow> length re = num_extents p"
  by (auto simp add: range_extents_def num_extents_def bind_err_def
      split: if_splits sum.splits prod.splits)

lemma prefer_extent_eq:
  "prefer_extent (l1, l2) = (if isfinite l2 then l2 else l1)"
  by (cases l2) (simp_all add: prefer_extent_def)

lemma range_extents_off:
  "\<not> apply_ranges p \<Longrightarrow> range_extents p view rs = Inr (replicate (num_extents p) NaN)"
  by (simp add: range_extents_def)

text \<open>
  C2 (as amended). A call of \<^verbatim>\<open>get_extents\<close> fails exactly when reading the ranges fails.
  When it returns, the result is computed pair by pair over the zip of the range tuple
  and the extent overrides. The range tuple has 4 components, or 6 in a 3d projection, and
  so has the result whenever the overrides have that many. Each component is the override
  when that is a finite number (so not None, a NaN or an infinity), and otherwise the
  component of the ranges exactly as it is, be it None, a NaN or an infinity: no third
  step puts NaN in its place. Without \<open>apply_ranges\<close> every component of the ranges is NaN
  and reading them cannot fail; without \<open>apply_extents\<close> every override is NaN.
\<close>

theorem get_extents_componentwise:
  "(range_extents p view rs = Inl e \<longrightarrow> get_extents b p view rs = Inl e)
   \<and> (range_extents p view rs = Inr re \<longrightarrow>
        get_extents b p view rs = Inr (map prefer_extent (zip re (extent_overrides b p view)))
        \<and> length re = num_extents p
        \<and> length (map prefer_extent (zip re (extent_overrides b p view)))
            = min (num_extents p) (length (extent_overrides b p view))
        \<and> (\<forall>i < min (num_extents p) (length (extent_overrides b p view)).
             map prefer_extent (zip re (extent_overrides b p view)) ! i
               = (if isfinite (extent_overrides b p view ! i)
                  then extent_overrides b p view ! i else re ! i)))
   \<and> num_extents p = (if projection p = Some ''3d'' then 6 else 4)
   \<and> (\<not> apply_ranges p \<longrightarrow> range_extents p view rs = Inr (replicate (num_extents p) NaN))
   \<and> (\<not> apply_extents p \<longrightarrow> extent_overrides b p view = replicate (num_extents p) NaN)"
proof -
  let ?ov = "extent_overrides b p view"
  have a: "range_extents p view rs = Inl e \<longrightarrow> get_extents b p view rs = Inl e"
    by (simp add: get_extents_def bind_err_def)
  have b: "get_extents b p view rs = Inr (map prefer_extent (zip re ?ov))
        \<and> length re = num_extents p
        \<and> length (map prefer_extent (zip re ?ov)) = min (num_extents p) (length ?ov)
        \<and> (\<forall>i < min (num_extents p) (length ?ov).
             map prefer_extent (zip re ?ov) ! i
               = (if isfinite (?ov ! i) then ?ov ! i else re ! i))"
    if r: "range_extents p view rs = Inr re"
  proof -
    have len: "length re = num_extents p"
      using r by (rule length_range_extents)
    have b1: "get_extents b p view rs = Inr (map prefer_extent (zip re ?ov))"
      using r by (simp add: get_extents_def bind_err_def)
    have b3: "length (map prefer_extent (zip re ?ov)) = min (num_extents p) (length ?ov)"
      using len by simp
    have b4: "\<forall>i < min (num_extents p) (length ?ov).
             map prefer_extent (zip re ?ov) ! i
               = (if isfinite (?ov ! i) then ?ov ! i else re ! i)"
      using len by (simp add: prefer_extent_eq)
    from b1 len b3 b4 show ?thesis by (intro conjI)
  qed
  have c: "num_extents p = (if projection p = Some ''3d'' then 6 else 4)"
    by (simp add: num_extents_def)
  have d: "\<not> apply_ranges p \<longrightarrow> range_extents p view rs = Inr (replicate (num_extents p) NaN)"
    by (simp add: range_extents_off)
  have e: "\<not> apply_extents p \<longrightarrow> ?ov = replicate (num_extents p) NaN"
    by (simp add: extent_overrides_def)
  have b': "range_extents p view rs = Inr re \<longrightarrow>
        get_extents b p view rs = Inr (map prefer_extent (zip re ?ov))
        \<and> length re = num_extents p
        \<and> length (map prefer_extent (zip re ?ov)) = min (num_extents p) (length ?ov)
        \<and> (\<forall>i < min (num_extents p) (length ?ov).
             map prefer_extent (zip re ?ov) ! i
               = (if isfinite (?ov ! i) then ?ov ! i else re ! i))"
  proof (rule impI)
    assume "range_extents p view rs = Inr re"
    then show "get_extents b p view rs = Inr (map prefer_extent (zip re ?ov))
        \<and> length re = num_extents p
        \<and> length (map prefer_extent (zip re ?ov)) = min (num_extents p) (length ?ov)
        \<and> (\<forall>i < min (num_extents p) (length ?ov).
             map prefer_extent (zip re ?ov) ! i
               = (if isfinite (?ov ! i) then ?ov ! i else re ! i))"
      by (rule b)
  qed
  from a b' c d e show ?thesis by (intro conjI)
qed

lemma num_extents_default [simp]: "num_extents (default_plot m) = 4"
  by (simp add: num_extents_def default_plot_def)

lemma extent_overrides_example:
  "extent_overrides example_base (default_plot five_curves)
     ((curve ''Curve'' ''A'')\<lparr>norm_framewise := True, extents := [Num (- 5), ENone, NaN, Num 7]\<rparr>)
     = [Num (- 5), ENone, NaN, Num 7]"
  by (simp add: extent_overrides_def default_plot_def)

lemma range_extents_example:
  "range_extents (default_plot five_curves)
     ((curve ''Curve'' ''A'')\<lparr>norm_framewise := True, extents := [Num (- 5), ENone, NaN, Num 7]\<rparr>)
     None
     = Inr [Num 0, Num (- 1), Num 10, Num 1]"
  by (simp add: range_extents_def default_plot_def ranges_truthy_def bind_err_def curve_def)

lemma range_extents_missing_example:
  "range_extents (default_plot five_curves) (curve ''Curve'' ''A'')
     (Some [(''x'', (Num 0, Num 1))]) = Inl KeyError"
  by (simp add: range_extents_def default_plot_def ranges_truthy_def bind_err_def curve_def
      lookup_range_def py_index_def dict_of_def plain_dimension_def)

text \<open>
  A frame whose ranges are partly unknown: \<open>-inf\<close> to 3 in x, None to a NaN in y.
\<close>

lemma range_extents_unknown_example:
  "range_extents ((default_plot five_curves)\<lparr>apply_extents := False\<rparr>)
     ((curve ''Curve'' ''A'')\<lparr>frame_range :=
         \<lambda>i. if i = 0 then (NegInf, Num 3) else (ENone, NaN)\<rparr>) None
     = Inr [NegInf, ENone, Num 3, NaN]"
  by (simp add: range_extents_def default_plot_def ranges_truthy_def bind_err_def curve_def)

lemma extent_overrides_off_example:
  "extent_overrides example_base ((default_plot five_curves)\<lparr>apply_extents := False\<rparr>) view
     = [NaN, NaN, NaN, NaN]"
  by (simp add: extent_overrides_def num_extents_def default_plot_def eval_nat_numeral)

theorem get_extents_componentwise_witness:
  "get_extents example_base (default_plot five_curves)
     ((curve ''Curve'' ''A'')\<lparr>norm_framewise := True, extents := [Num (- 5), ENone, NaN, Num 7]\<rparr>)
     None
     = Inr [Num (- 5), Num (- 1), Num 10, Num 7]
   \<and> get_extents example_base (default_plot five_curves) (curve ''Curve'' ''A'')
       (Some [(''x'', (Num 0, Num 1))]) = Inl KeyError
   \<and> range_extents ((default_plot five_curves)\<lparr>apply_ranges := False\<rparr>) (curve ''Curve'' ''A'')
       None = Inr [NaN, NaN, NaN, NaN]
   \<and> extent_overrides example_base ((default_plot five_curves)\<lparr>apply_extents := False\<rparr>)
       (curve ''Curve'' ''A'') = [NaN, NaN, NaN, NaN]"
proof -
  let ?v = "(curve ''Curve'' ''A'')\<lparr>norm_framewise := True,
              extents := [Num (- 5), ENone, NaN, Num 7]\<rparr>"
  have a: "get_extents example_base (default_plot five_curves) ?v None
             = Inr [Num (- 5), Num (- 1), Num 10, Num 7]"
    using get_extents_componentwise
      [where p = "default_plot five_curves" and view = ?v and rs = None and b = example_base
         and re = "[Num 0, Num (- 1), Num 10, Num 1]"]
      range_extents_example
    by (simp add: extent_overrides_example prefer_extent_def)
  have b: "get_extents example_base (default_plot five_curves) (curve ''Curve'' ''A'')
       (Some [(''x'', (Num 0, Num 1))]) = Inl KeyError"
    using get_extents_componentwise
      [where p = "default_plot five_curves" and view = "curve ''Curve'' ''A''"
         and rs = "Some [(''x'', (Num 0, Num 1))]" and b = example_base and e = KeyError]
      range_extents_missing_example
    by simp
  have n: "num_extents ((default_plot five_curves)\<lparr>apply_ranges := False\<rparr>) = 4"
    "num_extents ((default_plot five_curves)\<lparr>apply_extents := False\<rparr>) = 4"
    "\<not> apply_ranges ((default_plot five_curves)\<lparr>apply_ranges := False\<rparr>)"
    "\<not> apply_extents ((default_plot five_curves)\<lparr>apply_extents := False\<rparr>)"
    by (simp_all add: num_extents_def default_plot_def)
  have c: "range_extents ((default_plot five_curves)\<lparr>apply_ranges := False\<rparr>)
       (curve ''Curve'' ''A'') None = Inr [NaN, NaN, NaN, NaN]"
    using get_extents_componentwise
      [where p = "(default_plot five_curves)\<lparr>apply_ranges := False\<rparr>"
         and view = "curve ''Curve'' ''A''" and rs = None and b = example_base]
      n
    by (simp add: eval_nat_numeral)
  have d: "extent_overrides example_base ((default_plot five_curves)\<lparr>apply_extents := False\<rparr>)
       (curve ''Curve'' ''A'') = [NaN, NaN, NaN, NaN]"
    using get_extents_componentwise
      [where p = "(default_plot five_curves)\<lparr>apply_extents := False\<rparr>"
         and view = "curve ''Curve'' ''A''" and rs = None and b = example_base]
      n
    by (simp add: eval_nat_numeral)
  from a b c d show ?thesis by (intro conjI)
qed

theorem get_extents_unchecked_range_counterexample:
  "extent_overrides example_base ((default_plot five_curves)\<lparr>apply_extents := False\<rparr>)
     ((curve ''Curve'' ''A'')\<lparr>frame_range :=
         \<lambda>i. if i = 0 then (NegInf, Num 3) else (ENone, NaN)\<rparr>)
     = [NaN, NaN, NaN, NaN]
   \<and> get_extents example_base ((default_plot five_curves)\<lparr>apply_extents := False\<rparr>)
     ((curve ''Curve'' ''A'')\<lparr>frame_range :=
         \<lambda>i. if i = 0 then (NegInf, Num 3) else (ENone, NaN)\<rparr>) None
     = Inr [NegInf, ENone, Num 3, NaN]"
  by (simp add: get_extents_def range_extents_unknown_example extent_overrides_off_example
      bind_err_def prefer_extent_def)

section \<open>Properties of the title\<close>

lemma format_str_literal:
  "brace_free s \<Longrightarrow>
   format_str fld None (s @ t) = bind_err (format_str fld None t) (\<lambda>r. Inr (s @ r))"
proof (induction s)
  case Nil
  show ?case by (simp add: bind_err_def split: sum.splits)
next
  case (Cons c s)
  then have "c \<noteq> CHR ''{''" "c \<noteq> CHR ''}''" "brace_free s"
    by (simp_all add: brace_free_def)
  with Cons.IH show ?case
    by (simp add: bind_err_def split: sum.splits)
qed

lemma format_str_field_text:
  "brace_free n \<Longrightarrow>
   format_str fld (Some (acc, 1)) (n @ CHR ''}'' # t)
     = bind_err (fld (rev acc @ n)) (\<lambda>v.
         bind_err (format_str fld None t) (\<lambda>r. Inr (v @ r)))"
proof (induction n arbitrary: acc)
  case Nil
  show ?case by simp
next
  case (Cons c n)
  then have "c \<noteq> CHR ''{''" "c \<noteq> CHR ''}''" "brace_free n"
    by (simp_all add: brace_free_def)
  with Cons.IH [of "c # acc"] show ?case by simp
qed

lemma format_str_field:
  "brace_free n \<Longrightarrow> n \<noteq> [] \<Longrightarrow>
   format_str fld None (CHR ''{'' # n @ CHR ''}'' # t)
     = bind_err (fld n) (\<lambda>v. bind_err (format_str fld None t) (\<lambda>r. Inr (v @ r)))"
proof -
  assume n: "brace_free n" "n \<noteq> []"
  then obtain c cs where cs: "n = c # cs" by (cases n) auto
  with n have "c \<noteq> CHR ''{''" by (simp add: brace_free_def)
  then have "format_str fld None (CHR ''{'' # n @ CHR ''}'' # t)
      = format_str fld (Some ([], 1)) (n @ CHR ''}'' # t)"
    by (simp add: cs)
  also have "\<dots> = bind_err (fld (rev [] @ n)) (\<lambda>v.
         bind_err (format_str fld None t) (\<lambda>r. Inr (v @ r)))"
    using n(1) by (rule format_str_field_text)
  finally show ?thesis by simp
qed

lemma replacement_field_names:
  "replacement_field b (title_kwargs lbl grp tn) ''label'' = Inr lbl"
  "replacement_field b (title_kwargs lbl grp tn) ''group'' = Inr grp"
  "replacement_field b (title_kwargs lbl grp tn) ''type'' = Inr tn"
  by (simp_all add: replacement_field_def title_kwargs_def is_digit_def)

lemma format_str_piece:
  "piece_ok pc \<Longrightarrow>
   format_str (replacement_field b
       (title_kwargs (label frame)
          (if group frame \<noteq> type_name frame then group frame else []) (type_name frame)))
     None (piece_text pc @ t)
   = bind_err
       (format_str (replacement_field b
           (title_kwargs (label frame)
              (if group frame \<noteq> type_name frame then group frame else []) (type_name frame)))
          None t)
       (\<lambda>r. Inr (substitute frame pc @ r))"
proof (cases pc)
  case (Lit s)
  assume "piece_ok pc"
  with Lit have "brace_free s" by simp
  then show ?thesis unfolding Lit piece_text.simps substitute.simps
    by (rule format_str_literal)
next
  case (Field n)
  assume "piece_ok pc"
  with Field have n: "n = ''label'' \<or> n = ''group'' \<or> n = ''type''" by simp
  then have bf: "brace_free n" "n \<noteq> []" by (auto simp add: brace_free_def)
  have "format_str (replacement_field b
       (title_kwargs (label frame)
          (if group frame \<noteq> type_name frame then group frame else []) (type_name frame)))
     None (CHR ''{'' # n @ CHR ''}'' # t)
   = bind_err (replacement_field b
       (title_kwargs (label frame)
          (if group frame \<noteq> type_name frame then group frame else []) (type_name frame)) n)
       (\<lambda>v. bind_err
          (format_str (replacement_field b
             (title_kwargs (label frame)
                (if group frame \<noteq> type_name frame then group frame else []) (type_name frame)))
             None t)
          (\<lambda>r. Inr (v @ r)))"
    using bf by (rule format_str_field)
  with n show ?thesis unfolding Field
    by (auto simp add: replacement_field_names bind_err_def)
qed

lemma format_str_template:
  "list_all piece_ok ps \<Longrightarrow>
   format_str (replacement_field b
       (title_kwargs (label frame)
          (if group frame \<noteq> type_name frame then group frame else []) (type_name frame)))
     None (template_text ps)
   = Inr (concat (map (substitute frame) ps))"
proof (induction ps)
  case Nil
  show ?case by (simp add: template_text_def)
next
  case (Cons pc ps)
  then have ok: "piece_ok pc" and IH: "format_str (replacement_field b
       (title_kwargs (label frame)
          (if group frame \<noteq> type_name frame then group frame else []) (type_name frame)))
     None (template_text ps) = Inr (concat (map (substitute frame) ps))"
    by simp_all
  have "template_text (pc # ps) = piece_text pc @ template_text ps"
    by (simp add: template_text_def)
  then show ?case
    by (simp only: format_str_piece [OF ok] IH) (simp add: bind_err_def)
qed

lemma template_title_pieces:
  "\<not> layout_truthy p \<Longrightarrow> title_format p = template_text ps \<Longrightarrow> list_all piece_ok ps \<Longrightarrow>
   template_title b p frame = Inr (concat (map (substitute frame) ps))"
  by (simp add: template_title_def Let_def format_str_template)

lemma title_format_default [simp]: "title_format (default_plot m) = ''{label} {group}''"
  by (simp add: default_plot_def)

lemma layout_truthy_default [simp]: "layout_truthy (default_plot m) = False"
  by (simp add: layout_truthy_def default_plot_def)

lemma default_template_text:
  "''{label} {group}'' = template_text [Field ''label'', Lit '' '', Field ''group'']"
  by (simp add: template_text_def)

lemma template_title_label_group:
  "\<not> layout_truthy p \<Longrightarrow> title_format p = ''{label} {group}'' \<Longrightarrow>
   template_title b p frame
     = Inr (label frame @ '' '' @ (if group frame \<noteq> type_name frame then group frame else []))"
proof -
  assume h: "\<not> layout_truthy p" "title_format p = ''{label} {group}''"
  have ok: "list_all piece_ok [Field ''label'', Lit '' '', Field ''group'']"
    by (simp add: brace_free_def)
  from h(2) have "title_format p = template_text [Field ''label'', Lit '' '', Field ''group'']"
    by (simp only: default_template_text)
  from template_title_pieces [OF h(1) this ok, of b frame] show ?thesis by simp
qed

lemma template_title_default:
  "template_title b (default_plot m) frame
     = Inr (label frame @ '' '' @ (if group frame \<noteq> type_name frame then group frame else []))"
  by (rule template_title_label_group) simp_all

lemma format_title_selected:
  "get_frame b p key = Inr (Some frame) \<Longrightarrow> template_title b p frame = Inr title \<Longrightarrow>
   format_title b p key =
     (let dim_title = frame_title b p key 2
      in if title = [] \<or> isspace title then Inr dim_title
         else (case dim_title of
                 None \<Rightarrow> Inr (Some title)
               | Some dt \<Rightarrow> if dt = [] \<or> isspace dt then Inr (Some title)
                            else Inr (Some (title @ [CHR 0x0A] @ dt))))"
  by (simp add: format_title_def bind_err_def)

lemma get_frame_pair_example:
  "get_frame example_base (default_plot (curve_pair g l)) (IntV 0) = Inr (Some (curve g l))"
  by (simp add: get_frame_def frame_lookup_def normalize_key_def py_index_def exact_select_def
      curve_pair_def)

lemma get_frame_single_example:
  "get_frame example_base (default_plot (single_frame f)) (IntV 0) = Inr (Some f)"
  by (simp add: get_frame_def frame_lookup_def normalize_key_def py_index_def exact_select_def
      single_frame_def)

lemma frame_title_pair_example:
  "frame_title example_base (default_plot (curve_pair g l)) (IntV 0) 2 = Some ''t=0''"
  by (simp add: example_base_def curve_pair_def digit_def)

lemma frame_title_single_example:
  "frame_title example_base (default_plot (single_frame f)) key 2 = Some []"
  by (simp add: example_base_def single_frame_def)

lemma isspace_blank: "isspace '' ''"
  by (simp add: isspace_def is_space_char_def)

text \<open>
  C1 (as amended). An exception of the frame selection or of the formatting of the
  template is the outcome of \<^verbatim>\<open>_format_title\<close>, and without a frame the title is None. With
  a frame and the template part of the title formatted: if the template part is empty or
  white space, the title is the suffix of \<^verbatim>\<open>_frame_title\<close> as it is, also when that is
  empty or white space; otherwise, if the suffix is None, empty or white space, the title
  is the template part; otherwise it is the template part, a newline and the suffix. The
  template part is empty for a plot with layout dimensions; otherwise it is the template
  with each field \<open>{label}\<close>, \<open>{group}\<close>, \<open>{type}\<close> replaced by the label, the group (left
  out when it is the name of the type) and the name of the type of the frame, nothing
  stripped: the template \<open>{label} {group}\<close> gives the label, a space and the group.
\<close>

theorem format_title_cases:
  "(get_frame b p key = Inl e \<longrightarrow> format_title b p key = Inl e)
   \<and> (get_frame b p key = Inr None \<longrightarrow> format_title b p key = Inr None)
   \<and> (get_frame b p key = Inr (Some frame) \<and> template_title b p frame = Inl e \<longrightarrow>
        format_title b p key = Inl e)
   \<and> (get_frame b p key = Inr (Some frame) \<and> template_title b p frame = Inr title \<longrightarrow>
        (title = [] \<or> isspace title \<longrightarrow> format_title b p key = Inr (frame_title b p key 2))
        \<and> (\<not> (title = [] \<or> isspace title) \<and> frame_title b p key 2 = None \<longrightarrow>
             format_title b p key = Inr (Some title))
        \<and> (\<not> (title = [] \<or> isspace title) \<and> frame_title b p key 2 = Some dt
             \<and> (dt = [] \<or> isspace dt) \<longrightarrow>
             format_title b p key = Inr (Some title))
        \<and> (\<not> (title = [] \<or> isspace title) \<and> frame_title b p key 2 = Some dt
             \<and> \<not> (dt = [] \<or> isspace dt) \<longrightarrow>
             format_title b p key = Inr (Some (title @ [CHR 0x0A] @ dt))))
   \<and> (layout_truthy p \<longrightarrow> template_title b p frame = Inr [])
   \<and> (\<not> layout_truthy p \<and> title_format p = template_text ps \<and> list_all piece_ok ps \<longrightarrow>
        template_title b p frame = Inr (concat (map (substitute frame) ps)))
   \<and> (\<not> layout_truthy p \<and> title_format p = ''{label} {group}'' \<longrightarrow>
        template_title b p frame
          = Inr (label frame @ '' ''
                 @ (if group frame \<noteq> type_name frame then group frame else [])))"
proof -
  have a: "get_frame b p key = Inl e \<longrightarrow> format_title b p key = Inl e"
    by (simp add: format_title_def bind_err_def)
  have b: "get_frame b p key = Inr None \<longrightarrow> format_title b p key = Inr None"
    by (simp add: format_title_def bind_err_def)
  have c: "get_frame b p key = Inr (Some frame) \<and> template_title b p frame = Inl e \<longrightarrow>
        format_title b p key = Inl e"
    by (simp add: format_title_def bind_err_def)
  have d: "get_frame b p key = Inr (Some frame) \<and> template_title b p frame = Inr title \<longrightarrow>
        (title = [] \<or> isspace title \<longrightarrow> format_title b p key = Inr (frame_title b p key 2))
        \<and> (\<not> (title = [] \<or> isspace title) \<and> frame_title b p key 2 = None \<longrightarrow>
             format_title b p key = Inr (Some title))
        \<and> (\<not> (title = [] \<or> isspace title) \<and> frame_title b p key 2 = Some dt
             \<and> (dt = [] \<or> isspace dt) \<longrightarrow>
             format_title b p key = Inr (Some title))
        \<and> (\<not> (title = [] \<or> isspace title) \<and> frame_title b p key 2 = Some dt
             \<and> \<not> (dt = [] \<or> isspace dt) \<longrightarrow>
             format_title b p key = Inr (Some (title @ [CHR 0x0A] @ dt)))"
    by (simp add: format_title_selected Let_def)
  have e: "layout_truthy p \<longrightarrow> template_title b p frame = Inr []"
    by (simp add: template_title_def Let_def)
  have f: "\<not> layout_truthy p \<and> title_format p = template_text ps \<and> list_all piece_ok ps \<longrightarrow>
        template_title b p frame = Inr (concat (map (substitute frame) ps))"
    using template_title_pieces by blast
  have g: "\<not> layout_truthy p \<and> title_format p = ''{label} {group}'' \<longrightarrow>
        template_title b p frame
          = Inr (label frame @ '' ''
                 @ (if group frame \<noteq> type_name frame then group frame else []))"
    using template_title_label_group by blast
  from a b c d e f g show ?thesis by (intro conjI)
qed

lemma get_frame_undeclared_example:
  "get_frame example_base ((default_plot five_curves)\<lparr>dimensions := Some [''u'']\<rparr>) (IntV 3)
     = Inl ValueError"
  by (simp add: get_frame_lookup_error frame_lookup_undeclared_example)

lemma get_frame_missing_example:
  "get_frame example_base (default_plot five_curves) (IntV 7) = Inr None"
  by (simp add: get_frame_def fl7 sel7)

lemma get_frame_pair_template_example:
  "get_frame example_base ((default_plot (curve_pair g l))\<lparr>title_format := tf\<rparr>) (IntV 0)
     = Inr (Some (curve g l))"
  by (simp add: get_frame_def frame_lookup_def normalize_key_def py_index_def exact_select_def
      curve_pair_def)

lemma template_title_unknown_example:
  "template_title example_base ((default_plot (curve_pair [] ''X''))\<lparr>title_format := ''{name}''\<rparr>)
     (curve [] ''X'') = Inl KeyError"
  by (simp add: template_title_def layout_truthy_def default_plot_def replacement_field_def
      title_kwargs_def is_digit_def bind_err_def)

theorem format_title_cases_witness:
  "format_title example_base ((default_plot five_curves)\<lparr>dimensions := Some [''u'']\<rparr>) (IntV 3)
     = Inl ValueError
   \<and> format_title example_base (default_plot five_curves) (IntV 7) = Inr None
   \<and> format_title example_base
        ((default_plot (curve_pair [] ''X''))\<lparr>title_format := ''{name}''\<rparr>) (IntV 0)
     = Inl KeyError
   \<and> format_title example_base (default_plot (curve_pair [] ''X'')) (IntV 0)
     = Inr (Some (''X '' @ [CHR 0x0A] @ ''t=0''))
   \<and> format_title example_base (default_plot (single_frame (curve [] []))) (IntV 0)
     = Inr (Some [])
   \<and> format_title example_base (default_plot (single_frame (curve ''Curve'' ''A''))) (IntV 0)
     = Inr (Some ''A '')
   \<and> format_title (example_base\<lparr>frame_title := \<lambda>p k n. None\<rparr>)
        (default_plot (curve_pair [] ''X'')) (IntV 0)
     = Inr (Some ''X '')
   \<and> template_title example_base
        ((default_plot five_curves)\<lparr>layout_dimensions := Some [(''x'', IntV 1)]\<rparr>)
        (curve [] ''X'') = Inr []
   \<and> template_title example_base
        ((default_plot five_curves)\<lparr>title_format := ''{type}: {label}''\<rparr>) (curve [] ''X'')
     = Inr ''Curve: X''
   \<and> template_title example_base (default_plot five_curves) (curve [] ''X'') = Inr ''X ''"
proof -
  let ?b = example_base
  have t1: "template_title b (default_plot m) (curve [] ''X'') = Inr ''X ''" for b :: "unit base" and m
    by (simp add: template_title_default curve_def)
  have t2: "template_title ?b (default_plot (single_frame (curve [] []))) (curve [] []) = Inr '' ''"
    by (simp add: template_title_default curve_def)
  have t3: "template_title ?b (default_plot (single_frame (curve ''Curve'' ''A'')))
              (curve ''Curve'' ''A'') = Inr ''A ''"
    by (simp add: template_title_default curve_def)
  have g4: "get_frame (?b\<lparr>frame_title := \<lambda>p k n. None\<rparr>)
              (default_plot (curve_pair [] ''X'')) (IntV 0) = Inr (Some (curve [] ''X''))"
    by (simp add: get_frame_def frame_lookup_def normalize_key_def py_index_def
        exact_select_def curve_pair_def)
  have nx: "\<not> isspace ''X ''" "\<not> isspace ''A ''" "\<not> isspace ''t=0''"
    by (simp_all add: isspace_def is_space_char_def)
  have w1: "format_title ?b ((default_plot five_curves)\<lparr>dimensions := Some [''u'']\<rparr>) (IntV 3)
     = Inl ValueError"
    using format_title_cases
      [where b = ?b and p = "(default_plot five_curves)\<lparr>dimensions := Some [''u'']\<rparr>"
         and key = "IntV 3" and e = ValueError]
      get_frame_undeclared_example by simp
  have w2: "format_title ?b (default_plot five_curves) (IntV 7) = Inr None"
    using format_title_cases [where b = ?b and p = "default_plot five_curves" and key = "IntV 7"]
      get_frame_missing_example by simp
  have w3: "format_title ?b
        ((default_plot (curve_pair [] ''X''))\<lparr>title_format := ''{name}''\<rparr>) (IntV 0)
     = Inl KeyError"
    using format_title_cases
      [where b = ?b and p = "(default_plot (curve_pair [] ''X''))\<lparr>title_format := ''{name}''\<rparr>"
         and key = "IntV 0" and frame = "curve [] ''X''" and e = KeyError]
      get_frame_pair_template_example template_title_unknown_example by simp
  have w4: "format_title ?b (default_plot (curve_pair [] ''X'')) (IntV 0)
             = Inr (Some (''X '' @ [CHR 0x0A] @ ''t=0''))"
    using format_title_cases
      [where b = ?b and p = "default_plot (curve_pair [] ''X'')" and key = "IntV 0"
         and frame = "curve [] ''X''" and title = "''X ''" and dt = "''t=0''"]
      get_frame_pair_example t1 nx
    by (simp add: frame_title_pair_example)
  have w5: "format_title ?b (default_plot (single_frame (curve [] []))) (IntV 0) = Inr (Some [])"
    using format_title_cases
      [where b = ?b and p = "default_plot (single_frame (curve [] []))" and key = "IntV 0"
         and frame = "curve [] []" and title = "'' ''" and dt = "[]"]
      get_frame_single_example t2 isspace_blank
    by (simp add: frame_title_single_example)
  have w6: "format_title ?b (default_plot (single_frame (curve ''Curve'' ''A''))) (IntV 0)
             = Inr (Some ''A '')"
    using format_title_cases
      [where b = ?b and p = "default_plot (single_frame (curve ''Curve'' ''A''))"
         and key = "IntV 0" and frame = "curve ''Curve'' ''A''" and title = "''A ''"
         and dt = "[]"]
      get_frame_single_example t3 nx
    by (simp add: frame_title_single_example)
  have w7: "format_title (?b\<lparr>frame_title := \<lambda>p k n. None\<rparr>)
             (default_plot (curve_pair [] ''X'')) (IntV 0) = Inr (Some ''X '')"
    using format_title_cases
      [where b = "?b\<lparr>frame_title := \<lambda>p k n. None\<rparr>" and p = "default_plot (curve_pair [] ''X'')"
         and key = "IntV 0" and frame = "curve [] ''X''" and title = "''X ''" and dt = "[]"]
      g4 t1 nx
    by simp
  have lt: "layout_truthy ((default_plot five_curves)\<lparr>layout_dimensions := Some [(''x'', IntV 1)]\<rparr>)"
    by (simp add: layout_truthy_def)
  have w8: "template_title ?b
        ((default_plot five_curves)\<lparr>layout_dimensions := Some [(''x'', IntV 1)]\<rparr>)
        (curve [] ''X'') = Inr []"
    using format_title_cases
      [where b = ?b
         and p = "(default_plot five_curves)\<lparr>layout_dimensions := Some [(''x'', IntV 1)]\<rparr>"
         and frame = "curve [] ''X''"]
      lt by simp
  have nl: "\<not> layout_truthy ((default_plot five_curves)\<lparr>title_format := ''{type}: {label}''\<rparr>)"
    by (simp add: layout_truthy_def default_plot_def)
  have tt: "title_format ((default_plot five_curves)\<lparr>title_format := ''{type}: {label}''\<rparr>)
      = template_text [Field ''type'', Lit '': '', Field ''label'']"
    by (simp add: template_text_def)
  have ok: "list_all piece_ok [Field ''type'', Lit '': '', Field ''label'']"
    by (simp add: brace_free_def)
  have w9: "template_title ?b
        ((default_plot five_curves)\<lparr>title_format := ''{type}: {label}''\<rparr>) (curve [] ''X'')
     = Inr ''Curve: X''"
    using format_title_cases
      [where b = ?b and p = "(default_plot five_curves)\<lparr>title_format := ''{type}: {label}''\<rparr>"
         and frame = "curve [] ''X''" and ps = "[Field ''type'', Lit '': '', Field ''label'']"]
      nl tt ok
    by (simp add: curve_def)
  have w10: "template_title ?b (default_plot five_curves) (curve [] ''X'') = Inr ''X ''"
    using format_title_cases
      [where b = ?b and p = "default_plot five_curves" and frame = "curve [] ''X''"]
    by (simp add: curve_def)
  from w1 w2 w3 w4 w5 w6 w7 w8 w9 w10 show ?thesis by (intro conjI)
qed

theorem format_title_keeps_space_counterexample:
  "title_format (default_plot (curve_pair [] ''X'')) = ''{label} {group}''
   \<and> label (curve [] ''X'') = ''X'' \<and> group (curve [] ''X'') = []
   \<and> frame_title example_base (default_plot (curve_pair [] ''X'')) (IntV 0) 2 = Some ''t=0''
   \<and> format_title example_base (default_plot (curve_pair [] ''X'')) (IntV 0)
       = Inr (Some (''X '' @ [CHR 0x0A] @ ''t=0''))
   \<and> format_title example_base (default_plot (curve_pair [] ''X'')) (IntV 0)
       \<noteq> Inr (Some (''X'' @ [CHR 0x0A] @ ''t=0''))
   \<and> frame_title example_base (default_plot (single_frame (curve [] []))) (IntV 0) 2 = Some []
   \<and> format_title example_base (default_plot (single_frame (curve [] []))) (IntV 0)
       = Inr (Some [])
   \<and> format_title example_base (default_plot (single_frame (curve [] []))) (IntV 0) \<noteq> Inr None"
proof -
  have t1: "template_title example_base (default_plot (curve_pair [] ''X'')) (curve [] ''X'')
      = Inr ''X ''"
    by (simp add: template_title_default curve_def)
  have t2: "template_title example_base (default_plot (single_frame (curve [] []))) (curve [] [])
      = Inr '' ''"
    by (simp add: template_title_default curve_def)
  have nx: "\<not> isspace ''X ''" "\<not> isspace ''t=0''"
    by (simp_all add: isspace_def is_space_char_def)
  have a: "format_title example_base (default_plot (curve_pair [] ''X'')) (IntV 0)
             = Inr (Some (''X '' @ [CHR 0x0A] @ ''t=0''))"
    using format_title_selected [OF get_frame_pair_example t1] nx
    by (simp add: frame_title_pair_example)
  have b: "format_title example_base (default_plot (single_frame (curve [] []))) (IntV 0)
             = Inr (Some [])"
    using format_title_selected [OF get_frame_single_example t2] isspace_blank
    by (simp add: frame_title_single_example)
  from a b show ?thesis
    by (simp add: frame_title_pair_example frame_title_single_example curve_def)
qed

section \<open>Properties of the legend\<close>

lemma filter_first_per_handle_step:
  "filter (\<lambda>hl. fst hl \<noteq> h)
     (filter (\<lambda>hl. legend_entry_ok hl \<and> fst hl \<notin> set (map fst acc)) hls)
     = filter (\<lambda>hl. legend_entry_ok hl \<and> fst hl \<notin> set (map fst (acc @ [(h, l)]))) hls"
  by (induction hls) auto

lemma collect_legend_eq:
  "collect_legend hls acc =
     acc @ first_per_handle
             (filter (\<lambda>hl. legend_entry_ok hl \<and> fst hl \<notin> set (map fst acc)) hls)"
proof (induction hls arbitrary: acc)
  case Nil
  show ?case by simp
next
  case (Cons x hls)
  obtain h l where x: "x = (h, l)" by (cases x)
  show ?case
  proof (cases "handle_truthy h \<and> h \<notin> set (map fst acc) \<and> l \<noteq> []")
    case True
    then have "collect_legend (x # hls) acc = collect_legend hls (acc @ [(h, l)])"
      by (simp add: x)
    also have "\<dots> = (acc @ [(h, l)]) @ first_per_handle
        (filter (\<lambda>hl. legend_entry_ok hl \<and> fst hl \<notin> set (map fst (acc @ [(h, l)]))) hls)"
      by (rule Cons.IH)
    also have "\<dots> = acc @ first_per_handle
        (filter (\<lambda>hl. legend_entry_ok hl \<and> fst hl \<notin> set (map fst acc)) (x # hls))"
    proof -
      from True have ok: "legend_entry_ok (h, l)" "h \<notin> set (map fst acc)"
        by (simp_all add: legend_entry_ok_def)
      then have "filter (\<lambda>hl. legend_entry_ok hl \<and> fst hl \<notin> set (map fst acc)) (x # hls)
          = (h, l) # filter (\<lambda>hl. legend_entry_ok hl \<and> fst hl \<notin> set (map fst acc)) hls"
        by (simp add: x)
      then show ?thesis
        by (simp only: first_per_handle.simps filter_first_per_handle_step [symmetric]
            append_assoc append_Cons append_Nil)
    qed
    finally show ?thesis .
  next
    case False
    then have "collect_legend (x # hls) acc = collect_legend hls acc"
      by (auto simp add: x)
    also have "\<dots> = acc @ first_per_handle
        (filter (\<lambda>hl. legend_entry_ok hl \<and> fst hl \<notin> set (map fst acc)) hls)"
      by (rule Cons.IH)
    also have "\<dots> = acc @ first_per_handle
        (filter (\<lambda>hl. legend_entry_ok hl \<and> fst hl \<notin> set (map fst acc)) (x # hls))"
    proof -
      from False have "\<not> (legend_entry_ok x \<and> fst x \<notin> set (map fst acc))"
        by (auto simp add: x legend_entry_ok_def)
      then have "filter (\<lambda>hl. legend_entry_ok hl \<and> fst hl \<notin> set (map fst acc)) (x # hls)
          = filter (\<lambda>hl. legend_entry_ok hl \<and> fst hl \<notin> set (map fst acc)) hls"
        by simp
      then show ?thesis by (simp only:)
    qed
    finally show ?thesis .
  qed
qed

lemma zip_legend_lists:
  "zip (map fst ld @ ahs) (map snd ld @ als) = ld @ zip ahs als"
  by (simp add: zip_map_fst_snd)

lemma aggregate_legend_eq:
  "aggregate_legend ld ahs als = first_per_handle (filter legend_entry_ok (ld @ zip ahs als))"
  by (simp add: aggregate_legend_def Let_def zip_legend_lists collect_legend_eq)

lemma set_first_per_handle: "set (first_per_handle hls) \<subseteq> set hls"
proof (induction hls rule: first_per_handle.induct)
  case 1
  show ?case by simp
next
  case (2 h l hls)
  then show ?case by auto
qed

lemma distinct_first_per_handle: "distinct (map fst (first_per_handle hls))"
proof (induction hls rule: first_per_handle.induct)
  case 1
  show ?case by simp
next
  case (2 h l hls)
  have "h \<notin> fst ` set (first_per_handle (filter (\<lambda>hl. fst hl \<noteq> h) hls))"
    using set_first_per_handle [of "filter (\<lambda>hl. fst hl \<noteq> h) hls"] by auto
  with 2 show ?case by simp
qed

lemma adjust_legend_data:
  "\<not> map_is_ndoverlay p \<Longrightarrow> adjust_legend p = Inr p' \<Longrightarrow>
   handles_legend_data p' =
     Some (aggregate_legend
             (overlay_legend_data (ov_data (map_last p)) (overlay_subplots p) [])
             (auto_handles (handles_axis p)) (auto_labels (handles_axis p)))"
  by (auto simp add: adjust_legend_def Let_def bind_err_def split: if_splits sum.splits)

lemma overlay_legend_data_example:
  "overlay_legend_data (ov_data (map_last example_overlay_plot))
     (overlay_subplots example_overlay_plot) []
     = [(Artist 1, ''A''), (Artist 2, ''B''), (Artist 1, ''A'')]"
  by (simp add: example_overlay_plot_def plot.defs overlay_plot.defs dict_of_def
      legend_subplot_def labelled_layer_def)

lemma adjust_legend_example:
  "adjust_legend example_overlay_plot
     = Inr (example_overlay_plot
              \<lparr>handles_axis := new_axis\<lparr>axis_legend := Some example_legend\<rparr>,
               handles_legend := Some example_legend,
               handles_legend_data := Some [(Artist 1, ''A''), (Artist 2, ''B'')]\<rparr>)"
proof -
  have m: "map_is_ndoverlay example_overlay_plot = False"
    "show_legend example_overlay_plot = True"
    "legend_position example_overlay_plot = ''inner''"
    "handles_axis example_overlay_plot = new_axis"
    by (simp_all add: example_overlay_plot_def plot.defs overlay_plot.defs default_plot_def)
  have ax: "auto_handles new_axis = []" "auto_labels new_axis = []"
    by (simp_all add: new_axis_def)
  show ?thesis
    by (simp add: adjust_legend_def m ax aggregate_legend_def Let_def
        overlay_legend_data_example bind_err_def legend_specs_def example_legend_def)
qed

text \<open>
  C6 (as amended). The entries of the subplots followed by the entries the backend found
  on the axis are first filtered: an entry whose handle is false in Python's truth test
  or whose label is empty is dropped. Of the remaining entries the first one of each handle
  is kept, in the order of the list, so no handle occurs twice. The entries
  \<open>(h1, A), (h2, B), (h1, A)\<close> give the two entries \<open>(h1, A), (h2, B)\<close>. For a plain
  overlay this list is what \<^verbatim>\<open>_adjust_legend\<close> stores as \<^verbatim>\<open>legend_data\<close>.
\<close>

theorem legend_aggregation:
  "aggregate_legend legend_data autohandles autolabels
     = first_per_handle (filter legend_entry_ok (legend_data @ zip autohandles autolabels))
   \<and> distinct (map fst (aggregate_legend legend_data autohandles autolabels))
   \<and> aggregate_legend [(Artist 1, ''A''), (Artist 2, ''B''), (Artist 1, ''A'')] [] []
       = [(Artist 1, ''A''), (Artist 2, ''B'')]
   \<and> (\<not> map_is_ndoverlay p \<and> adjust_legend p = Inr p' \<longrightarrow>
        handles_legend_data p' =
          Some (aggregate_legend
                  (overlay_legend_data (ov_data (map_last p)) (overlay_subplots p) [])
                  (auto_handles (handles_axis p)) (auto_labels (handles_axis p))))"
proof -
  have a: "aggregate_legend legend_data autohandles autolabels
     = first_per_handle (filter legend_entry_ok (legend_data @ zip autohandles autolabels))"
    by (rule aggregate_legend_eq)
  have b: "distinct (map fst (aggregate_legend legend_data autohandles autolabels))"
    unfolding a by (rule distinct_first_per_handle)
  have c: "aggregate_legend [(Artist 1, ''A''), (Artist 2, ''B''), (Artist 1, ''A'')] [] []
       = [(Artist 1, ''A''), (Artist 2, ''B'')]"
    by (simp add: aggregate_legend_def)
  have d: "\<not> map_is_ndoverlay p \<and> adjust_legend p = Inr p' \<longrightarrow>
        handles_legend_data p' =
          Some (aggregate_legend
                  (overlay_legend_data (ov_data (map_last p)) (overlay_subplots p) [])
                  (auto_handles (handles_axis p)) (auto_labels (handles_axis p)))"
    using adjust_legend_data by blast
  from a b c d show ?thesis by (intro conjI)
qed

theorem legend_aggregation_witness:
  "\<not> map_is_ndoverlay example_overlay_plot
   \<and> adjust_legend example_overlay_plot
       = Inr (example_overlay_plot
                \<lparr>handles_axis := new_axis\<lparr>axis_legend := Some example_legend\<rparr>,
                 handles_legend := Some example_legend,
                 handles_legend_data := Some [(Artist 1, ''A''), (Artist 2, ''B'')]\<rparr>)
   \<and> Some [(Artist 1, ''A''), (Artist 2, ''B'')]
       = Some (aggregate_legend
                 (overlay_legend_data (ov_data (map_last example_overlay_plot))
                    (overlay_subplots example_overlay_plot) [])
                 (auto_handles (handles_axis example_overlay_plot))
                 (auto_labels (handles_axis example_overlay_plot)))
   \<and> legend_labels example_legend = [''A'', ''B'']"
proof -
  have m: "\<not> map_is_ndoverlay example_overlay_plot"
    by (simp add: example_overlay_plot_def plot.defs overlay_plot.defs)
  from legend_aggregation
    [where p = example_overlay_plot
       and p' = "example_overlay_plot
                \<lparr>handles_axis := new_axis\<lparr>axis_legend := Some example_legend\<rparr>,
                 handles_legend := Some example_legend,
                 handles_legend_data := Some [(Artist 1, ''A''), (Artist 2, ''B'')]\<rparr>"]
    m adjust_legend_example
  show ?thesis by (simp add: example_legend_def)
qed

theorem legend_empty_label_counterexample:
  "aggregate_legend [(Artist 1, []), (Artist 1, ''A'')] [] [] = [(Artist 1, ''A'')]
   \<and> first_per_handle ([(Artist 1, []), (Artist 1, ''A'')] @ zip [] [])
       = [(Artist 1, [])]"
  by (simp add: aggregate_legend_def)

end
